theory Spec2Isabelle
  imports Complex_Main "HOL-Library.Word"
begin

unbundle bit_operations_syntax

section \<open>Conventions of the embedding\<close>

text \<open>
  The development embeds the query engine (\<^verbatim>\<open>query/engine.ts\<close>), the filter helpers
  (\<^verbatim>\<open>query/filters.ts\<close>), the aggregator (\<^verbatim>\<open>query/aggregation.ts\<close>) and the analytics
  (\<^verbatim>\<open>analytics/entropy.ts\<close>, \<^verbatim>\<open>analytics/beaconing.ts\<close>, \<^verbatim>\<open>analytics/anomaly.ts\<close>) of the
  Zeek log server.
  \<^item> A JavaScript string is a \<open>string\<close>; each character stands for one code unit below 256.
  \<^item> A JavaScript number is a \<open>jsnum\<close>: \<open>NaN\<close>, the two infinities, or a finite value
    carried as a real. Arithmetic on finite values is exact: rounding to 53 bits, overflow
    to an infinity and the negative zero are not represented.
  \<^item> A value of type \<^verbatim>\<open>unknown\<close> is a \<open>jsval\<close>. An object is an association list read with
    \<open>map_of\<close> (own properties only; the properties every object inherits, such as
    \<^verbatim>\<open>toString\<close>, are not represented). Objects and arrays are compared by identity in
    JavaScript; a value read from a record and a value of a filter never share identity.
  \<^item> Three services of the runtime are parameters, collected in \<open>platform\<close>: the decimal
    rendering of a finite number that is not whole, the conversion of a string to a number, and
    \<^verbatim>\<open>localeCompare\<close>. Every theorem holds for each platform.
  \<^item> A regular expression test is written as the deterministic recogniser of the same
    language.
  \<^item> \<^verbatim>\<open>Array.prototype.sort\<close> is a stable sort; it is written as the stable insertion sort
    driven by the sign of the comparator.
  \<^item> A \<^verbatim>\<open>Map\<close> or \<^verbatim>\<open>Set\<close> is a list in insertion order without repeated keys.
\<close>

section \<open>Characters and strings\<close>

text \<open>The code unit of a character, and membership in a range of code units.\<close>

definition code :: "char \<Rightarrow> nat" where
  "code c = of_char c"

definition in_range :: "char \<Rightarrow> char \<Rightarrow> char \<Rightarrow> bool" where
  "in_range lo hi c = (code lo \<le> code c \<and> code c \<le> code hi)"

definition is_digit :: "char \<Rightarrow> bool" where
  "is_digit c = in_range CHR ''0'' CHR ''9'' c"

definition is_lower :: "char \<Rightarrow> bool" where
  "is_lower c = in_range CHR ''a'' CHR ''z'' c"

definition is_upper :: "char \<Rightarrow> bool" where
  "is_upper c = in_range CHR ''A'' CHR ''Z'' c"

text \<open>The character class \<^verbatim>\<open>[0-9a-fA-F]\<close>.\<close>

definition is_hex_char :: "char \<Rightarrow> bool" where
  "is_hex_char c = (is_digit c \<or> in_range CHR ''a'' CHR ''f'' c \<or> in_range CHR ''A'' CHR ''F'' c)"

text \<open>The character class \<^verbatim>\<open>[A-Za-z0-9+/]\<close>.\<close>

definition is_b64_char :: "char \<Rightarrow> bool" where
  "is_b64_char c = (is_upper c \<or> is_lower c \<or> is_digit c \<or> c = CHR ''+'' \<or> c = CHR ''/'')"

text \<open>
  \<^verbatim>\<open>String.prototype.toLowerCase\<close> on code units below 256: the ASCII capitals and the
  Latin-1 capitals (0xC0 to 0xDE without the multiplication sign 0xD7) move up by 32.
\<close>

definition lower_char :: "char \<Rightarrow> char" where
  "lower_char c =
     (if is_upper c \<or> (192 \<le> code c \<and> code c \<le> 222 \<and> code c \<noteq> 215)
      then char_of (code c + 32) else c)"

definition toLowerCase :: "string \<Rightarrow> string" where
  "toLowerCase s = map lower_char s"

text \<open>\<^verbatim>\<open>s.includes(t)\<close>: \<open>t\<close> occurs in \<open>s\<close> as a contiguous block.\<close>

fun str_includes :: "string \<Rightarrow> string \<Rightarrow> bool" where
  "str_includes [] t = (t = [])"
| "str_includes (c # s) t = (take (length t) (c # s) = t \<or> str_includes s t)"

text \<open>
  \<^verbatim>\<open>s.split(sep)\<close> for a separator that is not empty: \<open>split_go sep cur s\<close> scans \<open>s\<close> with
  the piece \<open>cur\<close> collected so far (reversed). An empty separator splits into code units.
\<close>

fun split_go :: "string \<Rightarrow> string \<Rightarrow> string \<Rightarrow> string list" where
  "split_go sep cur [] = [rev cur]"
| "split_go sep cur (c # s) =
     (if take (length sep) (c # s) = sep
      then rev cur # split_go sep [] (drop (length sep - 1) s)
      else split_go sep (c # cur) s)"

definition split :: "string \<Rightarrow> string \<Rightarrow> string list" where
  "split s sep = (if sep = [] then map (\<lambda>c. [c]) s else split_go sep [] s)"

text \<open>\<^verbatim>\<open>parts.join(sep)\<close> on an array of strings.\<close>

fun join :: "string \<Rightarrow> string list \<Rightarrow> string" where
  "join sep [] = []"
| "join sep [x] = x"
| "join sep (x # y # ys) = x @ sep @ join sep (y # ys)"

text \<open>\<^verbatim>\<open>g.padStart(n, "0")\<close>.\<close>

definition padStart0 :: "nat \<Rightarrow> string \<Rightarrow> string" where
  "padStart0 n g = replicate (n - length g) CHR ''0'' @ g"

text \<open>The decimal rendering of a natural number, as a template literal prints a size.\<close>

definition digit_char :: "nat \<Rightarrow> char" where
  "digit_char d = char_of (48 + d)"

fun nat_to_string :: "nat \<Rightarrow> string" where
  "nat_to_string n = (if n < 10 then [digit_char n] else nat_to_string (n div 10) @ [digit_char (n mod 10)])"

declare nat_to_string.simps [simp del]

text \<open>The decimal rendering of an integer.\<close>

definition int_to_string :: "int \<Rightarrow> string" where
  "int_to_string i = (if i < 0 then CHR ''-'' # nat_to_string (nat (- i)) else nat_to_string (nat i))"

subsection \<open>\<^verbatim>\<open>parseInt\<close>\<close>

text \<open>
  White space that \<^verbatim>\<open>parseInt\<close> skips: tab, line feed, vertical tab, form feed, carriage
  return, space and the no-break space.
\<close>

definition is_space :: "char \<Rightarrow> bool" where
  "is_space c = (code c \<in> {9, 10, 11, 12, 13, 32, 160})"

text \<open>The value of a digit in a radix up to 16, when the character is one.\<close>

definition digit_val :: "nat \<Rightarrow> char \<Rightarrow> nat option" where
  "digit_val radix c =
     (let v = (if is_digit c then Some (code c - 48)
               else if in_range CHR ''a'' CHR ''f'' c then Some (code c - 87)
               else if in_range CHR ''A'' CHR ''F'' c then Some (code c - 55)
               else None)
      in case v of None \<Rightarrow> None | Some d \<Rightarrow> if d < radix then Some d else None)"

text \<open>Horner evaluation of the digits read so far.\<close>

definition digits_value :: "nat \<Rightarrow> string \<Rightarrow> nat" where
  "digits_value radix z = foldl (\<lambda>acc c. acc * radix + the (digit_val radix c)) 0 z"

text \<open>
  \<^verbatim>\<open>parseInt(s, radix)\<close> for radix 10 or 16; \<open>None\<close> is \<^verbatim>\<open>NaN\<close>. Leading white space is
  dropped, one sign is read, radix 16 drops a \<^verbatim>\<open>0x\<close> prefix, and the longest run of digits
  is evaluated; what follows the digits is ignored. The value is the exact integer (the
  runtime rounds integers of more than 53 bits).
\<close>

definition parseInt :: "string \<Rightarrow> nat \<Rightarrow> int option" where
  "parseInt s radix =
     (let s1 = dropWhile is_space s;
          neg = (s1 \<noteq> [] \<and> hd s1 = CHR ''-'');
          s2 = (if s1 \<noteq> [] \<and> (hd s1 = CHR ''+'' \<or> hd s1 = CHR ''-'') then tl s1 else s1);
          s3 = (if radix = 16 \<and> (take 2 s2 = ''0x'' \<or> take 2 s2 = ''0X'') then drop 2 s2 else s2);
          z = takeWhile (\<lambda>c. digit_val radix c \<noteq> None) s3
      in if z = [] then None
         else Some ((if neg then -1 else 1) * int (digits_value radix z)))"

section \<open>Numbers and values\<close>

datatype jsnum = NaN | PInf | NInf | Fin real

text \<open>Negation, addition, subtraction and division of numbers.\<close>

fun num_neg :: "jsnum \<Rightarrow> jsnum" where
  "num_neg NaN = NaN"
| "num_neg PInf = NInf"
| "num_neg NInf = PInf"
| "num_neg (Fin x) = Fin (- x)"

fun num_add :: "jsnum \<Rightarrow> jsnum \<Rightarrow> jsnum" where
  "num_add NaN _ = NaN"
| "num_add _ NaN = NaN"
| "num_add PInf NInf = NaN"
| "num_add NInf PInf = NaN"
| "num_add PInf _ = PInf"
| "num_add _ PInf = PInf"
| "num_add NInf _ = NInf"
| "num_add _ NInf = NInf"
| "num_add (Fin x) (Fin y) = Fin (x + y)"

definition num_sub :: "jsnum \<Rightarrow> jsnum \<Rightarrow> jsnum" where
  "num_sub a b = num_add a (num_neg b)"

fun num_div :: "jsnum \<Rightarrow> jsnum \<Rightarrow> jsnum" where
  "num_div (Fin x) (Fin y) =
     (if y \<noteq> 0 then Fin (x / y) else if x > 0 then PInf else if x < 0 then NInf else NaN)"
| "num_div (Fin x) PInf = Fin 0"
| "num_div (Fin x) NInf = Fin 0"
| "num_div PInf (Fin y) = (if y < 0 then NInf else PInf)"
| "num_div NInf (Fin y) = (if y < 0 then PInf else NInf)"
| "num_div _ _ = NaN"

text \<open>Multiplication; an infinity times zero is \<^verbatim>\<open>NaN\<close>.\<close>

fun num_mul :: "jsnum \<Rightarrow> jsnum \<Rightarrow> jsnum" where
  "num_mul (Fin x) (Fin y) = Fin (x * y)"
| "num_mul NaN _ = NaN"
| "num_mul _ NaN = NaN"
| "num_mul (Fin x) PInf = (if x = 0 then NaN else if x > 0 then PInf else NInf)"
| "num_mul (Fin x) NInf = (if x = 0 then NaN else if x > 0 then NInf else PInf)"
| "num_mul PInf (Fin y) = (if y = 0 then NaN else if y > 0 then PInf else NInf)"
| "num_mul NInf (Fin y) = (if y = 0 then NaN else if y > 0 then NInf else PInf)"
| "num_mul PInf PInf = PInf"
| "num_mul NInf NInf = PInf"
| "num_mul PInf NInf = NInf"
| "num_mul NInf PInf = NInf"

text \<open>\<^verbatim>\<open>Math.sqrt\<close>, \<^verbatim>\<open>Math.pow(x, 2)\<close> and \<^verbatim>\<open>Math.round\<close>.\<close>

fun num_sqrt :: "jsnum \<Rightarrow> jsnum" where
  "num_sqrt (Fin x) = (if x < 0 then NaN else Fin (sqrt x))"
| "num_sqrt PInf = PInf"
| "num_sqrt _ = NaN"

definition num_pow2 :: "jsnum \<Rightarrow> jsnum" where
  "num_pow2 x = num_mul x x"

fun num_round :: "jsnum \<Rightarrow> jsnum" where
  "num_round (Fin x) = Fin (real_of_int \<lfloor>x + 1 / 2\<rfloor>)"
| "num_round a = a"

text \<open>The comparisons \<^verbatim>\<open><\<close> and \<^verbatim>\<open><=\<close> on numbers; both are false when a side is \<^verbatim>\<open>NaN\<close>.\<close>

fun num_lt :: "jsnum \<Rightarrow> jsnum \<Rightarrow> bool" where
  "num_lt NaN _ = False"
| "num_lt _ NaN = False"
| "num_lt _ NInf = False"
| "num_lt NInf _ = True"
| "num_lt PInf _ = False"
| "num_lt _ PInf = True"
| "num_lt (Fin x) (Fin y) = (x < y)"

fun num_le :: "jsnum \<Rightarrow> jsnum \<Rightarrow> bool" where
  "num_le NaN _ = False"
| "num_le _ NaN = False"
| "num_le NInf _ = True"
| "num_le _ PInf = True"
| "num_le _ NInf = False"
| "num_le PInf _ = False"
| "num_le (Fin x) (Fin y) = (x \<le> y)"

text \<open>\<^verbatim>\<open>Math.min(a, b)\<close>.\<close>

definition num_min :: "jsnum \<Rightarrow> jsnum \<Rightarrow> jsnum" where
  "num_min a b = (if a = NaN \<or> b = NaN then NaN else if num_le a b then a else b)"

text \<open>\<^verbatim>\<open>Math.max(a, b)\<close>.\<close>

definition num_max :: "jsnum \<Rightarrow> jsnum \<Rightarrow> jsnum" where
  "num_max a b = (if a = NaN \<or> b = NaN then NaN else if num_le a b then b else a)"

text \<open>\<^verbatim>\<open>isNaN\<close> on a number.\<close>

definition isNaN :: "jsnum \<Rightarrow> bool" where
  "isNaN a = (a = NaN)"

datatype jsval =
    Undefined
  | Null
  | Bool bool
  | Num jsnum
  | Str string
  | Arr "jsval list"
  | Obj "(string \<times> jsval) list"

type_synonym ZeekRecord = "(string \<times> jsval) list"

text \<open>The services of the runtime that the embedding takes as parameters.\<close>

record platform =
  num_to_string :: "real \<Rightarrow> string"
  string_to_num :: "string \<Rightarrow> jsnum"
  localeCompare :: "string \<Rightarrow> string \<Rightarrow> int"

text \<open>\<^verbatim>\<open>record[key]\<close> and \<^verbatim>\<open>key in record\<close>.\<close>

definition get_prop :: "(string \<times> jsval) list \<Rightarrow> string \<Rightarrow> jsval" where
  "get_prop kvs k = (case map_of kvs k of None \<Rightarrow> Undefined | Some v \<Rightarrow> v)"

definition has_prop :: "(string \<times> jsval) list \<Rightarrow> string \<Rightarrow> bool" where
  "has_prop kvs k = (map_of kvs k \<noteq> None)"

text \<open>\<^verbatim>\<open>v ?? d\<close>.\<close>

definition nullish :: "jsval \<Rightarrow> bool" where
  "nullish v = (v = Undefined \<or> v = Null)"

definition coalesce :: "jsval \<Rightarrow> jsval \<Rightarrow> jsval" where
  "coalesce v d = (if nullish v then d else v)"

text \<open>\<^verbatim>\<open>String(v)\<close>. A whole number below \<open>10^21\<close> in absolute value prints in decimal,
  any other finite number as the platform renders it. An array prints its elements joined by commas, a nullish element as
  the empty string; an object prints as \<^verbatim>\<open>[object Object]\<close>.\<close>

fun js_String :: "platform \<Rightarrow> jsval \<Rightarrow> string" where
  "js_String P Undefined = ''undefined''"
| "js_String P Null = ''null''"
| "js_String P (Bool b) = (if b then ''true'' else ''false'')"
| "js_String P (Num NaN) = ''NaN''"
| "js_String P (Num PInf) = ''Infinity''"
| "js_String P (Num NInf) = ''-Infinity''"
| "js_String P (Num (Fin x)) =
     (if real_of_int \<lfloor>x\<rfloor> = x \<and> \<bar>x\<bar> < 10 ^ 21 then int_to_string \<lfloor>x\<rfloor>
      else num_to_string P x)"
| "js_String P (Str s) = s"
| "js_String P (Arr xs) = join '','' (map (\<lambda>v. if nullish v then [] else js_String P v) xs)"
| "js_String P (Obj kvs) = ''[object Object]''"

text \<open>\<^verbatim>\<open>ToNumber(v)\<close>, used where a relational operator meets a value that is not a number.\<close>

definition js_ToNumber :: "platform \<Rightarrow> jsval \<Rightarrow> jsnum" where
  "js_ToNumber P v =
     (case v of
        Undefined \<Rightarrow> NaN
      | Null \<Rightarrow> Fin 0
      | Bool b \<Rightarrow> (if b then Fin 1 else Fin 0)
      | Num n \<Rightarrow> n
      | _ \<Rightarrow> string_to_num P (js_String P v))"

text \<open>\<^verbatim>\<open>typeof v === "number"\<close>, and the number that such a value carries.\<close>

definition typeof_number :: "jsval \<Rightarrow> bool" where
  "typeof_number v = (case v of Num n \<Rightarrow> True | _ \<Rightarrow> False)"

definition as_num :: "jsval \<Rightarrow> jsnum" where
  "as_num v = (case v of Num n \<Rightarrow> n | _ \<Rightarrow> NaN)"

text \<open>Truthiness, as \<^verbatim>\<open>!v\<close> reads it.\<close>

definition truthy :: "jsval \<Rightarrow> bool" where
  "truthy v =
     (case v of
        Undefined \<Rightarrow> False
      | Null \<Rightarrow> False
      | Bool b \<Rightarrow> b
      | Num n \<Rightarrow> n \<noteq> NaN \<and> n \<noteq> Fin 0
      | Str s \<Rightarrow> s \<noteq> []
      | _ \<Rightarrow> True)"

text \<open>
  \<^verbatim>\<open>a === b\<close> between a value read from a record and a value of a filter: numbers compare
  by value with \<^verbatim>\<open>NaN\<close> unequal to itself, arrays and objects never share identity.
\<close>

fun strict_eq :: "jsval \<Rightarrow> jsval \<Rightarrow> bool" where
  "strict_eq (Num a) (Num b) = (a \<noteq> NaN \<and> a = b)"
| "strict_eq (Arr _) _ = False"
| "strict_eq (Obj _) _ = False"
| "strict_eq a b = (a = b)"

text \<open>\<^verbatim>\<open>SameValueZero\<close>, the equality of \<^verbatim>\<open>Array.prototype.includes\<close>, in the same setting.\<close>

fun same_value_zero :: "jsval \<Rightarrow> jsval \<Rightarrow> bool" where
  "same_value_zero (Arr _) _ = False"
| "same_value_zero (Obj _) _ = False"
| "same_value_zero a b = (a = b)"

section \<open>Field resolver: \<open>getNestedValue\<close>\<close>

text \<open>
  Reading the property \<open>p\<close> of an array: \<^verbatim>\<open>length\<close>, or an element when \<open>p\<close> is the decimal
  form of an index.
\<close>

definition arr_prop :: "jsval list \<Rightarrow> string \<Rightarrow> jsval" where
  "arr_prop xs p =
     (if p = ''length'' then Num (Fin (real (length xs)))
      else if p \<noteq> [] \<and> list_all is_digit p \<and> nat_to_string (digits_value 10 p) = p
              \<and> digits_value 10 p < length xs
      then xs ! digits_value 10 p
      else Undefined)"

text \<open>The walk along the segments of a dotted path.\<close>

fun walk :: "jsval \<Rightarrow> string list \<Rightarrow> jsval" where
  "walk current [] = current"
| "walk current (part # parts) =
     (case current of
        Undefined \<Rightarrow> Undefined
      | Null \<Rightarrow> Undefined
      | Obj kvs \<Rightarrow> walk (get_prop kvs part) parts
      | Arr xs \<Rightarrow> walk (arr_prop xs part) parts
      | _ \<Rightarrow> Undefined)"

definition getNestedValue :: "ZeekRecord \<Rightarrow> string \<Rightarrow> jsval" where
  "getNestedValue rec field =
     (if has_prop rec field then get_prop rec field
      else walk (Obj rec) (split field ''.''))"

section \<open>Filter helpers (\<^verbatim>\<open>query/filters.ts\<close>) and their copies in the query engine\<close>

subsection \<open>IPv4\<close>

text \<open>
  The loop of \<open>ipv4ToNum\<close>: \<open>num\<close> is the 32-bit accumulator of \<^verbatim>\<open>(num << 8) | octet\<close>.
  The function has the same text in both modules.
\<close>

fun ipv4_octets :: "32 word \<Rightarrow> string list \<Rightarrow> 32 word option" where
  "ipv4_octets num [] = Some num"
| "ipv4_octets num (part # parts) =
     (case parseInt part 10 of
        None \<Rightarrow> None
      | Some octet \<Rightarrow>
          if octet < 0 \<or> octet > 255 then None
          else ipv4_octets (push_bit 8 num OR word_of_int octet) parts)"

definition ipv4ToNum :: "string \<Rightarrow> 32 word option" where
  "ipv4ToNum ip =
     (let parts = split ip ''.''
      in if length parts \<noteq> 4 then None else ipv4_octets 0 parts)"

text \<open>
  \<^verbatim>\<open>prefix === 0 ? 0 : ~0 << (32 - prefix)\<close>: the shift count is \<^verbatim>\<open>32 - prefix\<close> reduced
  modulo 32, and 0 when the prefix is \<^verbatim>\<open>NaN\<close>.
\<close>

definition ipv4_mask :: "int option \<Rightarrow> 32 word" where
  "ipv4_mask prefix =
     (if prefix = Some 0 then 0
      else push_bit (case prefix of None \<Rightarrow> 0 | Some p \<Rightarrow> nat ((32 - p) mod 32)) (- 1))"

text \<open>The tail of both \<open>matchCidr\<close> functions: the packed comparison under the mask.\<close>

definition matchCidr4 :: "string \<Rightarrow> string \<Rightarrow> int option \<Rightarrow> bool" where
  "matchCidr4 ip network prefix =
     (case (ipv4ToNum ip, ipv4ToNum network) of
        (Some ipNum, Some netNum) \<Rightarrow>
          (let mask = ipv4_mask prefix in (ipNum AND mask) = (netNum AND mask))
      | _ \<Rightarrow> False)"

text \<open>
  \<open>matchCidr\<close> of the query engine (\<^verbatim>\<open>query/engine.ts\<close>), the one \<open>applyFilter\<close> calls. Since
  the CIDR contains a slash, the split has at least two pieces and the last case is never
  taken.
\<close>

definition engine_matchCidr :: "string \<Rightarrow> string \<Rightarrow> bool" where
  "engine_matchCidr ip cidr =
     (if \<not> str_includes cidr ''/'' then ip = cidr
      else case split cidr ''/'' of
             network # prefixStr # _ \<Rightarrow> matchCidr4 ip network (parseInt prefixStr 10)
           | _ \<Rightarrow> False)"

subsection \<open>IPv6\<close>

text \<open>\<open>expandIpv6\<close>; \<open>None\<close> is \<^verbatim>\<open>null\<close>.\<close>

definition expandIpv6 :: "string \<Rightarrow> string option" where
  "expandIpv6 ip =
     (if str_includes ip ''::'' then
        (case split ip ''::'' of
           left # right # _ \<Rightarrow>
             (let leftGroups = (if left \<noteq> [] then split left '':'' else []);
                  rightGroups = (if right \<noteq> [] then split right '':'' else []);
                  missing = 8 - int (length leftGroups) - int (length rightGroups)
              in if missing < 0 then None
                 else Some (join '':'' (map (padStart0 4)
                        (leftGroups @ replicate (nat missing) ''0000'' @ rightGroups))))
         | _ \<Rightarrow> None)
      else Some ip)"

text \<open>The two bytes \<^verbatim>\<open>(val >> 8) & 0xff\<close> and \<^verbatim>\<open>val & 0xff\<close> of a group.\<close>

definition group_bytes :: "int \<Rightarrow> 32 word list" where
  "group_bytes val =
     [signed_drop_bit 8 (word_of_int val :: 32 word) AND 255, (word_of_int val :: 32 word) AND 255]"

fun ipv6_groups :: "string list \<Rightarrow> 32 word list option" where
  "ipv6_groups [] = Some []"
| "ipv6_groups (grp # grps) =
     (case parseInt grp 16 of
        None \<Rightarrow> None
      | Some val \<Rightarrow>
          (case ipv6_groups grps of
             None \<Rightarrow> None
           | Some bytes \<Rightarrow> Some (group_bytes val @ bytes)))"

definition ipv6ToBytes :: "string \<Rightarrow> 32 word list option" where
  "ipv6ToBytes ip =
     (case expandIpv6 ip of
        None \<Rightarrow> None
      | Some expanded \<Rightarrow>
          if expanded = [] then None
          else let grps = split expanded '':''
               in if length grps \<noteq> 8 then None else ipv6_groups grps)"

text \<open>
  The loop of \<open>matchCidr6\<close> from index \<open>i\<close>; \<open>remaining\<close> is \<open>None\<close> when the prefix is
  \<^verbatim>\<open>NaN\<close>, and then both comparisons fail and the loop breaks.
\<close>

function matchCidr6_loop :: "nat \<Rightarrow> int option \<Rightarrow> 32 word list \<Rightarrow> 32 word list \<Rightarrow> bool" where
  "matchCidr6_loop i remaining ipBytes netBytes =
     (if i < 16 then
        (case remaining of
           None \<Rightarrow> True
         | Some r \<Rightarrow>
             if r \<ge> 8 then
               (if ipBytes ! i \<noteq> netBytes ! i then False
                else matchCidr6_loop (i + 1) (Some (r - 8)) ipBytes netBytes)
             else if r > 0 then
               (let mask = push_bit (nat (8 - r)) (- 1 :: 32 word) AND 255
                in if (ipBytes ! i AND mask) \<noteq> (netBytes ! i AND mask) then False
                   else matchCidr6_loop (i + 1) (Some 0) ipBytes netBytes)
             else True)
      else True)"
  by pat_completeness auto
termination
  by (relation "measure (\<lambda>(i, r, a, b). 16 - i)") auto

definition matchCidr6 :: "string \<Rightarrow> string \<Rightarrow> int option \<Rightarrow> bool" where
  "matchCidr6 ip network prefix =
     (case (ipv6ToBytes ip, ipv6ToBytes network) of
        (Some ipBytes, Some netBytes) \<Rightarrow> matchCidr6_loop 0 prefix ipBytes netBytes
      | _ \<Rightarrow> False)"

text \<open>\<open>matchCidr\<close> of \<^verbatim>\<open>query/filters.ts\<close>, the exported one.\<close>

definition matchCidr :: "string \<Rightarrow> string \<Rightarrow> bool" where
  "matchCidr ip cidr =
     (if \<not> str_includes cidr ''/'' then ip = cidr
      else case split cidr ''/'' of
             network # prefixStr # _ \<Rightarrow>
               (let prefix = parseInt prefixStr 10
                in if str_includes ip '':'' \<or> str_includes network '':''
                   then matchCidr6 ip network prefix
                   else matchCidr4 ip network prefix)
           | _ \<Rightarrow> False)"

subsection \<open>Wildcards\<close>

text \<open>
  The pattern is compiled to \<^verbatim>\<open>^s1.*s2.* ... sn$\<close> with flag \<^verbatim>\<open>i\<close>, every \<open>s\<close> escaped to a
  literal. \<open>wild_match star segs v\<close> recognises it: the first segment is a prefix of \<open>v\<close>
  up to case, or, after a star, one more character that is not a line terminator is
  skipped.
\<close>

definition ci_prefix :: "string \<Rightarrow> string \<Rightarrow> bool" where
  "ci_prefix s v = (toLowerCase (take (length s) v) = toLowerCase s)"

definition is_line_terminator :: "char \<Rightarrow> bool" where
  "is_line_terminator c = (code c = 10 \<or> code c = 13)"

function wild_match :: "bool \<Rightarrow> string list \<Rightarrow> string \<Rightarrow> bool" where
  "wild_match star [] v = (v = [])"
| "wild_match star (s # rest) v =
     ((if ci_prefix s v
       then (if rest = [] then length v = length s
             else wild_match True rest (drop (length s) v))
       else False)
      \<or> (if star \<and> v \<noteq> [] \<and> \<not> is_line_terminator (hd v)
          then wild_match True (s # rest) (tl v) else False))"
  by pat_completeness auto
termination
  by (relation "measure (\<lambda>(star, segs, v). length segs + length v)") auto

definition matchWildcard :: "string \<Rightarrow> string \<Rightarrow> bool" where
  "matchWildcard val pattern =
     (if \<not> str_includes pattern ''*'' then toLowerCase val = toLowerCase pattern
      else wild_match False (split pattern ''*'') val)"

section \<open>Query engine (\<^verbatim>\<open>query/engine.ts\<close>)\<close>

record FilterDef =
  field :: string
  op :: string
  fvalue :: jsval

record QueryOptions =
  logType :: string
  filters :: "FilterDef list option"
  timeFrom :: "string option"
  timeTo :: "string option"
  sortBy :: "string option"
  sortOrder :: "string option"
  limit :: "jsnum option"

record ZeekConfig =
  logDir :: string
  logArchive :: string
  logFormat :: string
  maxResults :: jsnum

text \<open>\<open>applyFilter\<close>; the operator is a string, and an unknown one falls to the default.\<close>

definition applyFilter :: "platform \<Rightarrow> ZeekRecord \<Rightarrow> FilterDef \<Rightarrow> bool" where
  "applyFilter P rec flt =
     (let v = getNestedValue rec (field flt); fv = fvalue flt
      in if op flt = ''eq'' then strict_eq v fv \<or> js_String P v = js_String P fv
         else if op flt = ''neq'' then \<not> strict_eq v fv \<and> js_String P v \<noteq> js_String P fv
         else if op flt = ''gt'' then
           (case v of Num n \<Rightarrow> num_lt (js_ToNumber P fv) n | _ \<Rightarrow> False)
         else if op flt = ''gte'' then
           (case v of Num n \<Rightarrow> num_le (js_ToNumber P fv) n | _ \<Rightarrow> False)
         else if op flt = ''lt'' then
           (case v of Num n \<Rightarrow> num_lt n (js_ToNumber P fv) | _ \<Rightarrow> False)
         else if op flt = ''lte'' then
           (case v of Num n \<Rightarrow> num_le n (js_ToNumber P fv) | _ \<Rightarrow> False)
         else if op flt = ''contains'' then
           (case v of
              Str s \<Rightarrow> str_includes (toLowerCase s) (toLowerCase (js_String P fv))
            | Arr xs \<Rightarrow>
                list_ex (\<lambda>x. str_includes (toLowerCase (js_String P x))
                                           (toLowerCase (js_String P fv))) xs
            | _ \<Rightarrow> False)
         else if op flt = ''wildcard'' then
           matchWildcard (js_String P (coalesce v (Str []))) (js_String P fv)
         else if op flt = ''cidr'' then
           engine_matchCidr (js_String P (coalesce v (Str []))) (js_String P fv)
         else if op flt = ''in'' then
           (case fv of
              Arr ys \<Rightarrow> list_ex (\<lambda>y. same_value_zero y v) ys
                        \<or> js_String P v \<in> set (map (js_String P) ys)
            | _ \<Rightarrow> False)
         else if op flt = ''exists'' then v \<noteq> Undefined \<and> v \<noteq> Null
         else True)"

text \<open>
  The comparator handed to \<^verbatim>\<open>sort\<close>. Its result is a number; only the sign is used.
\<close>

definition compareRecords :: "platform \<Rightarrow> string \<Rightarrow> string \<Rightarrow> ZeekRecord \<Rightarrow> ZeekRecord \<Rightarrow> jsnum" where
  "compareRecords P sortField sortOrd a b =
     (let aVal = getNestedValue a sortField; bVal = getNestedValue b sortField
      in if aVal = Undefined \<and> bVal = Undefined then Fin 0
         else if aVal = Undefined then Fin 1
         else if bVal = Undefined then Fin (- 1)
         else let cmp = (if typeof_number aVal \<and> typeof_number bVal
                         then num_sub (as_num aVal) (as_num bVal)
                         else Fin (real_of_int
                                (localeCompare P (js_String P aVal) (js_String P bVal))))
              in if sortOrd = ''desc'' then num_neg cmp else cmp)"

text \<open>
  \<^verbatim>\<open>xs.sort(cmp)\<close>: \<open>x\<close> moves behind \<open>y\<close> exactly when \<open>cmp x y\<close> is positive, so equal
  elements keep their order.
\<close>

fun insert_by :: "('a \<Rightarrow> 'a \<Rightarrow> jsnum) \<Rightarrow> 'a \<Rightarrow> 'a list \<Rightarrow> 'a list" where
  "insert_by cmp x [] = [x]"
| "insert_by cmp x (y # ys) =
     (if num_lt (Fin 0) (cmp x y) then y # insert_by cmp x ys else x # y # ys)"

fun js_sort :: "('a \<Rightarrow> 'a \<Rightarrow> jsnum) \<Rightarrow> 'a list \<Rightarrow> 'a list" where
  "js_sort cmp [] = []"
| "js_sort cmp (x # xs) = insert_by cmp x (js_sort cmp xs)"

text \<open>
  \<^verbatim>\<open>xs.slice(0, e)\<close>: \<open>e\<close> is truncated to an integer (\<^verbatim>\<open>NaN\<close> to 0); a negative end counts
  from the end of the array.
\<close>

definition trunc :: "real \<Rightarrow> int" where
  "trunc x = (if x \<ge> 0 then \<lfloor>x\<rfloor> else \<lceil>x\<rceil>)"

definition slice0 :: "'a list \<Rightarrow> jsnum \<Rightarrow> 'a list" where
  "slice0 xs e =
     (case e of
        NaN \<Rightarrow> []
      | PInf \<Rightarrow> xs
      | NInf \<Rightarrow> []
      | Fin x \<Rightarrow>
          (let k = trunc x
           in if k < 0 then take (nat (int (length xs) + k)) xs else take (nat k) xs))"

text \<open>
  \<open>executeQuery\<close>. The argument \<open>records\<close> is what the awaited call of \<^verbatim>\<open>queryLog\<close> returned
  for the log type and the time window of the options.
\<close>

definition executeQuery :: "platform \<Rightarrow> ZeekConfig \<Rightarrow> QueryOptions \<Rightarrow> ZeekRecord list \<Rightarrow> ZeekRecord list" where
  "executeQuery P config options records =
     (let filtered = (case filters options of
                        Some fs \<Rightarrow>
                          if length fs > 0
                          then filter (\<lambda>rec. list_all (applyFilter P rec) fs) records
                          else records
                      | None \<Rightarrow> records);
          sortField = (case sortBy options of None \<Rightarrow> ''ts'' | Some f \<Rightarrow> f);
          sortOrd = (case sortOrder options of None \<Rightarrow> ''desc'' | Some ord \<Rightarrow> ord);
          sorted = js_sort (compareRecords P sortField sortOrd) filtered;
          lim0 = num_min (case limit options of None \<Rightarrow> Fin 100 | Some l \<Rightarrow> l) (maxResults config)
      in slice0 sorted lim0)"

section \<open>Aggregator (\<^verbatim>\<open>query/aggregation.ts\<close>)\<close>

record GroupResult =
  key :: string
  count :: nat
  percentage :: real

record AggregationResult =
  agg_field :: string
  groups :: "GroupResult list"
  total :: nat

text \<open>\<^verbatim>\<open>counts.set(key, (counts.get(key) ?? 0) + 1)\<close> on a map kept in insertion order.\<close>

fun bump :: "string \<Rightarrow> (string \<times> nat) list \<Rightarrow> (string \<times> nat) list" where
  "bump k [] = [(k, 1)]"
| "bump k ((k', n) # rest) = (if k = k' then (k', n + 1) # rest else (k', n) # bump k rest)"

text \<open>The bucket of a record: the string form of the value, or \<^verbatim>\<open>(unset)\<close>.\<close>

definition group_key :: "platform \<Rightarrow> string \<Rightarrow> ZeekRecord \<Rightarrow> string" where
  "group_key P fld rec =
     (let v = getNestedValue rec fld
      in if v \<noteq> Undefined \<and> v \<noteq> Null then js_String P v else ''(unset)'')"

text \<open>\<^verbatim>\<open>Math.round(x)\<close> on a finite value: the nearest integer, a half going up.\<close>

definition math_round :: "real \<Rightarrow> real" where
  "math_round x = real_of_int \<lfloor>x + 1 / 2\<rfloor>"

text \<open>\<open>groupBy\<close>; the limit is \<open>None\<close> when the caller leaves it out, and then it is 20.\<close>

definition groupBy :: "platform \<Rightarrow> ZeekRecord list \<Rightarrow> string \<Rightarrow> jsnum option \<Rightarrow> AggregationResult" where
  "groupBy P records fld lim0 =
     (let counts = foldl (\<lambda>m rec. bump (group_key P fld rec) m) [] records;
          sorted = slice0 (js_sort (\<lambda>a b. Fin (real (snd b) - real (snd a))) counts)
                     (case lim0 of None \<Rightarrow> Fin 20 | Some l \<Rightarrow> l);
          tot = length records
      in \<lparr> agg_field = fld,
           groups = map (\<lambda>(k, c). \<lparr> key = k, count = c,
                      percentage = (if tot > 0
                                    then math_round ((real c / real tot) * 10000) / 100
                                    else 0) \<rparr>) sorted,
           total = tot \<rparr>)"

text \<open>The test \<^verbatim>\<open>typeof value === "number" && !isNaN(value)\<close> of \<open>sumField\<close> and \<open>avgField\<close>.\<close>

definition is_summable :: "jsval \<Rightarrow> bool" where
  "is_summable v = (typeof_number v \<and> \<not> isNaN (as_num v))"

definition sumField :: "ZeekRecord list \<Rightarrow> string \<Rightarrow> jsnum" where
  "sumField records fld =
     foldl (\<lambda>tot rec. let v = getNestedValue rec fld
                       in if is_summable v then num_add tot (as_num v) else tot)
       (Fin 0) records"

text \<open>The loop of \<open>avgField\<close> carries the total and the count.\<close>

definition avgField :: "ZeekRecord list \<Rightarrow> string \<Rightarrow> jsnum" where
  "avgField records fld =
     (let (tot, cnt) =
            foldl (\<lambda>(tot, cnt) rec. let v = getNestedValue rec fld
                                     in if is_summable v then (num_add tot (as_num v), cnt + 1)
                                        else (tot, cnt))
              (Fin 0, 0 :: nat) records
      in if cnt > 0 then num_div tot (Fin (real cnt)) else Fin 0)"

section \<open>Anomaly detector: \<open>detectPortScans\<close> (\<^verbatim>\<open>analytics/anomaly.ts\<close>)\<close>








section \<open>Beacon detector (\<^verbatim>\<open>analytics/beaconing.ts\<close>)\<close>

record BeaconCandidate =
  srcIp :: string
  dstIp :: string
  dstPort :: "int option"
  connectionCount :: nat
  avgInterval :: jsnum
  stdDevInterval :: jsnum
  jitter :: jsnum
  avgBytes :: jsnum
  score :: jsnum

text \<open>
  \<^verbatim>\<open>if (!m.has(k)) m.set(k, []); m.get(k).push(v)\<close> on a \<^verbatim>\<open>Map\<close> in insertion order.
\<close>

fun push_to :: "string \<Rightarrow> 'a \<Rightarrow> (string \<times> 'a list) list \<Rightarrow> (string \<times> 'a list) list" where
  "push_to k v [] = [(k, [v])]"
| "push_to k v ((k', s) # rest) =
     (if k = k' then (k', s @ [v]) # rest else (k', s) # push_to k v rest)"

text \<open>The three parts of the key of a record and the key \<^verbatim>\<open>`${src}|${dst}|${port}`\<close>.\<close>

definition beacon_src :: "platform \<Rightarrow> ZeekRecord \<Rightarrow> string" where
  "beacon_src P rec = js_String P (coalesce (get_prop rec ''id.orig_h'') (Str []))"

definition beacon_dst :: "platform \<Rightarrow> ZeekRecord \<Rightarrow> string" where
  "beacon_dst P rec = js_String P (coalesce (get_prop rec ''id.resp_h'') (Str []))"

definition beacon_port :: "platform \<Rightarrow> ZeekRecord \<Rightarrow> string" where
  "beacon_port P rec = js_String P (get_prop rec ''id.resp_p'')"

definition beacon_key :: "platform \<Rightarrow> ZeekRecord \<Rightarrow> string" where
  "beacon_key P rec = beacon_src P rec @ ''|'' @ beacon_dst P rec @ ''|'' @ beacon_port P rec"

text \<open>
  One turn of the first loop. The timestamps only ever meet a subtraction, which converts
  its operands to numbers, so the list holds them converted.
\<close>

definition beacon_step ::
  "platform \<Rightarrow> (string \<times> jsnum list) list \<Rightarrow> ZeekRecord \<Rightarrow> (string \<times> jsnum list) list" where
  "beacon_step P pairs rec =
     (let src = beacon_src P rec; dst = beacon_dst P rec; ts = get_prop rec ''ts''
      in if src = [] \<or> dst = [] \<or> \<not> truthy ts then pairs
         else push_to (beacon_key P rec) (js_ToNumber P ts) pairs)"

text \<open>The differences \<^verbatim>\<open>timestamps[i] - timestamps[i - 1]\<close> for \<open>i\<close> from 1.\<close>

definition intervals_of :: "jsnum list \<Rightarrow> jsnum list" where
  "intervals_of ts = map (\<lambda>(a, b). num_sub b a) (zip ts (tl ts))"

text \<open>The statistics of the intervals, as the source reduces them.\<close>

definition mean_of :: "jsnum list \<Rightarrow> jsnum" where
  "mean_of ivs = num_div (foldl num_add (Fin 0) ivs) (Fin (real (length ivs)))"

definition variance_of :: "jsnum list \<Rightarrow> jsnum" where
  "variance_of ivs =
     num_div (foldl (\<lambda>s i. num_add s (num_pow2 (num_sub i (mean_of ivs)))) (Fin 0) ivs)
       (Fin (real (length ivs)))"

definition jitter_of :: "jsnum list \<Rightarrow> jsnum" where
  "jitter_of ivs = num_mul (num_div (num_sqrt (variance_of ivs)) (mean_of ivs)) (Fin 100)"

text \<open>\<^verbatim>\<open>Math.round(x * 100) / 100\<close>.\<close>

definition round2 :: "jsnum \<Rightarrow> jsnum" where
  "round2 x = num_div (num_round (num_mul x (Fin 100))) (Fin 100)"

text \<open>\<^verbatim>\<open>v === n\<close> for a value and the result of \<open>parseInt\<close>.\<close>

definition eq_parsed :: "jsval \<Rightarrow> int option \<Rightarrow> bool" where
  "eq_parsed v n =
     (case (v, n) of (Num (Fin x), Some i) \<Rightarrow> x = real_of_int i | _ \<Rightarrow> False)"

text \<open>The average of the bytes over the records of the triple read back from the key.\<close>

definition avg_bytes :: "platform \<Rightarrow> ZeekRecord list \<Rightarrow> string \<Rightarrow> string \<Rightarrow> string \<Rightarrow> jsnum" where
  "avg_bytes P records src dst port =
     (let relatedRecords =
            filter (\<lambda>r. js_String P (get_prop r ''id.orig_h'') = src
                       \<and> js_String P (get_prop r ''id.resp_h'') = dst
                       \<and> eq_parsed (get_prop r ''id.resp_p'') (parseInt port 10)) records;
          (totalBytes, byteCount) =
            foldl (\<lambda>(totalBytes, byteCount) r.
                     let orig = get_prop r ''orig_bytes''; resp = get_prop r ''resp_bytes'';
                         (t1, c1) = (if typeof_number orig
                                     then (num_add totalBytes (as_num orig), byteCount + 1)
                                     else (totalBytes, byteCount))
                     in (if typeof_number resp then num_add t1 (as_num resp) else t1, c1))
              (Fin 0, 0 :: nat) relatedRecords
      in if byteCount > 0 then num_div totalBytes (Fin (real byteCount)) else Fin 0)"

text \<open>The scores and the object pushed for a group that passed every test.\<close>

definition beacon_result ::
  "platform \<Rightarrow> ZeekRecord list \<Rightarrow> string \<Rightarrow> string \<Rightarrow> string \<Rightarrow> jsnum list \<Rightarrow> jsnum list
   \<Rightarrow> BeaconCandidate" where
  "beacon_result P records src dst port timestamps ivs =
     (let regularityScore = num_max (Fin 0) (num_sub (Fin 100) (jitter_of ivs));
          volumeScore = num_min (Fin 100) (Fin (real (length timestamps) / 2));
          sc = num_add (num_mul regularityScore (Fin (7 / 10)))
                       (num_mul volumeScore (Fin (3 / 10)))
      in \<lparr> srcIp = src, dstIp = dst, dstPort = parseInt port 10,
           connectionCount = length timestamps,
           avgInterval = round2 (mean_of ivs),
           stdDevInterval = round2 (num_sqrt (variance_of ivs)),
           jitter = round2 (jitter_of ivs),
           avgBytes = num_round (avg_bytes P records src dst port),
           score = round2 sc \<rparr>)"

text \<open>
  The body of the second loop for one entry of the map; \<open>None\<close> stands for \<^verbatim>\<open>continue\<close>.
  The key holds two bars at least, so its split has three pieces and the last case is
  never taken.
\<close>

definition beacon_candidate ::
  "platform \<Rightarrow> ZeekRecord list \<Rightarrow> jsnum \<Rightarrow> jsnum \<Rightarrow> string \<Rightarrow> jsnum list
   \<Rightarrow> BeaconCandidate option" where
  "beacon_candidate P records minConnections maxJitterPercent k timestamps0 =
     (if num_lt (Fin (real (length timestamps0))) minConnections then None
      else
        let timestamps = js_sort num_sub timestamps0;
            ivs = intervals_of timestamps
        in if length ivs = 0 then None
           else if mean_of ivs = Fin 0 then None
           else if num_lt maxJitterPercent (jitter_of ivs) then None
           else
             (case split k ''|'' of
                src # dst # port # _ \<Rightarrow>
                  Some (beacon_result P records src dst port timestamps ivs)
              | _ \<Rightarrow> None))"

text \<open>A parameter with a default: left out, it is \<open>None\<close> and takes the default.\<close>

definition or_default :: "'a \<Rightarrow> 'a option \<Rightarrow> 'a" where
  "or_default d v = (case v of None \<Rightarrow> d | Some x \<Rightarrow> x)"

text \<open>\<open>detectBeaconing\<close>, with the defaults 10 and 30.\<close>

definition detectBeaconing ::
  "platform \<Rightarrow> ZeekRecord list \<Rightarrow> jsnum option \<Rightarrow> jsnum option \<Rightarrow> BeaconCandidate list" where
  "detectBeaconing P records minConnections0 maxJitterPercent0 =
     (let minConnections = or_default (Fin 10) minConnections0;
          maxJitterPercent = or_default (Fin 30) maxJitterPercent0;
          pairs = foldl (beacon_step P) [] records;
          candidates = List.map_filter
             (\<lambda>(k, timestamps). beacon_candidate P records minConnections maxJitterPercent k timestamps)
             pairs
      in js_sort (\<lambda>a b. num_sub (score b) (score a)) candidates)"

section \<open>Entropy analyser: \<open>detectEncoding\<close>\<close>

text \<open>\<^verbatim>\<open>/^[0-9a-fA-F]+$/.test(input)\<close>: one or more hexadecimal digits and nothing else.\<close>

definition hex_regex :: "string \<Rightarrow> bool" where
  "hex_regex s = (s \<noteq> [] \<and> list_all is_hex_char s)"

text \<open>
  \<^verbatim>\<open>/^[A-Za-z0-9+/]+={0,2}$/.test(input)\<close>: one or more characters of the alphabet, then at
  most two \<open>=\<close>, then the end of the input. Since \<open>=\<close> is outside the alphabet, the
  alphabet part of a match is exactly the longest prefix inside the alphabet.
\<close>

definition b64_regex :: "string \<Rightarrow> bool" where
  "b64_regex s =
     (let body = takeWhile is_b64_char s; rest = dropWhile is_b64_char s
      in body \<noteq> [] \<and> (rest = [] \<or> rest = ''='' \<or> rest = ''==''))"

text \<open>\<open>detectEncoding\<close>; \<open>None\<close> is the \<^verbatim>\<open>null\<close> result.\<close>

definition detectEncoding :: "string \<Rightarrow> string option" where
  "detectEncoding input =
     (if hex_regex input \<and> length input > 10 \<and> length input mod 2 = 0 then Some ''hex''
      else if b64_regex input \<and> length input > 10 then Some ''base64''
      else None)"

section \<open>Auxiliary notions for the statements\<close>

text \<open>The sort field of a record resolves to absent.\<close>

definition absent :: "string \<Rightarrow> ZeekRecord \<Rightarrow> bool" where
  "absent f r = (getNestedValue r f = Undefined)"

text \<open>
  A platform for the evaluation of examples: strings of decimal digits are read as
  numbers and strings are ordered by code units. The examples print whole numbers only,
  which \<open>js_String\<close> renders itself.
\<close>

fun code_unit_compare :: "string \<Rightarrow> string \<Rightarrow> int" where
  "code_unit_compare [] [] = 0"
| "code_unit_compare [] (d # t) = - 1"
| "code_unit_compare (c # s) [] = 1"
| "code_unit_compare (c # s) (d # t) =
     (if code c < code d then - 1 else if code d < code c then 1 else code_unit_compare s t)"

definition example_platform :: platform where
  "example_platform =
     \<lparr> num_to_string = (\<lambda>x. int_to_string \<lfloor>x\<rfloor>),
       string_to_num = (\<lambda>s. if s \<noteq> [] \<and> list_all is_digit s
                               then Fin (real (digits_value 10 s)) else NaN),
       localeCompare = code_unit_compare \<rparr>"









text \<open>
  The words of the beacon claim. A record is timestamped and carries both addresses when
  the first loop does not skip it. The records are well formed when no address contains a
  bar, every destination port is a whole number from 0 to 65535 and every timestamp is a
  finite number or absent. The timestamps of a triple are those of its records that the
  loop does not skip.
\<close>

definition is_port :: "jsval \<Rightarrow> bool" where
  "is_port v =
     (case v of Num (Fin x) \<Rightarrow> 0 \<le> x \<and> x \<le> 65535 \<and> real_of_int \<lfloor>x\<rfloor> = x | _ \<Rightarrow> False)"

definition finite_or_absent :: "jsval \<Rightarrow> bool" where
  "finite_or_absent v = (case v of Num (Fin x) \<Rightarrow> True | Undefined \<Rightarrow> True | _ \<Rightarrow> False)"

definition beacon_eligible :: "platform \<Rightarrow> ZeekRecord \<Rightarrow> bool" where
  "beacon_eligible P r =
     (beacon_src P r \<noteq> [] \<and> beacon_dst P r \<noteq> [] \<and> truthy (get_prop r ''ts''))"

definition beacon_wf :: "platform \<Rightarrow> ZeekRecord list \<Rightarrow> bool" where
  "beacon_wf P rs =
     list_all (\<lambda>r. CHR ''|'' \<notin> set (beacon_src P r) \<and> CHR ''|'' \<notin> set (beacon_dst P r)
                  \<and> is_port (get_prop r ''id.resp_p'')
                  \<and> finite_or_absent (get_prop r ''ts'')) rs"

definition triple_timestamps ::
  "platform \<Rightarrow> ZeekRecord list \<Rightarrow> string \<Rightarrow> string \<Rightarrow> int \<Rightarrow> jsnum list" where
  "triple_timestamps P rs s d p =
     map (\<lambda>r. js_ToNumber P (get_prop r ''ts''))
       (filter (\<lambda>r. beacon_eligible P r \<and> beacon_src P r = s \<and> beacon_dst P r = d
                     \<and> get_prop r ''id.resp_p'' = Num (Fin (real_of_int p))) rs)"

text \<open>The timestamps that the first loop files under a key.\<close>

definition key_timestamps :: "platform \<Rightarrow> ZeekRecord list \<Rightarrow> string \<Rightarrow> jsnum list" where
  "key_timestamps P rs k =
     map (\<lambda>r. js_ToNumber P (get_prop r ''ts''))
       (filter (\<lambda>r. beacon_eligible P r \<and> beacon_key P r = k) rs)"

text \<open>A number is finite; a record is well formed in the sense of \<open>beacon_wf\<close>.\<close>

definition is_fin :: "jsnum \<Rightarrow> bool" where
  "is_fin a = (case a of Fin x \<Rightarrow> True | _ \<Rightarrow> False)"

definition wf_record :: "platform \<Rightarrow> ZeekRecord \<Rightarrow> bool" where
  "wf_record P r = (CHR ''|'' \<notin> set (beacon_src P r) \<and> CHR ''|'' \<notin> set (beacon_dst P r)
                  \<and> is_port (get_prop r ''id.resp_p'')
                  \<and> finite_or_absent (get_prop r ''ts''))"

text \<open>A connection record of the beacon examples.\<close>

definition conn_record :: "string \<Rightarrow> string \<Rightarrow> jsval \<Rightarrow> jsnum \<Rightarrow> ZeekRecord" where
  "conn_record s d p t =
     [(''id.orig_h'', Str s), (''id.resp_h'', Str d), (''id.resp_p'', p), (''ts'', Num t)]"

text \<open>
  The record lists of the beacon examples: three connections 60 seconds apart; two
  connections whose source contains a bar; two connections with an infinite timestamp;
  two connections without a destination port; three connections at irregular intervals.
\<close>

definition beacon_example :: "ZeekRecord list" where
  "beacon_example =
     [conn_record ''192.168.1.100'' ''45.33.32.156'' (Num (Fin 443)) (Fin 60),
      conn_record ''192.168.1.100'' ''45.33.32.156'' (Num (Fin 443)) (Fin 120),
      conn_record ''192.168.1.100'' ''45.33.32.156'' (Num (Fin 443)) (Fin 180)]"

definition beacon_bar_example :: "ZeekRecord list" where
  "beacon_bar_example =
     [conn_record ''a|b'' ''c'' (Num (Fin 1)) (Fin 60),
      conn_record ''a|b'' ''c'' (Num (Fin 1)) (Fin 120)]"

definition beacon_inf_example :: "ZeekRecord list" where
  "beacon_inf_example =
     [conn_record ''10.0.0.1'' ''10.0.0.2'' (Num (Fin 443)) PInf,
      conn_record ''10.0.0.1'' ''10.0.0.2'' (Num (Fin 443)) PInf]"

definition beacon_noport_example :: "ZeekRecord list" where
  "beacon_noport_example =
     [conn_record ''10.0.0.1'' ''10.0.0.2'' Undefined (Fin 60),
      conn_record ''10.0.0.1'' ''10.0.0.2'' Undefined (Fin 120)]"

definition beacon_nan_example :: "ZeekRecord list" where
  "beacon_nan_example =
     [conn_record ''10.0.0.1'' ''10.0.0.2'' (Num (Fin 443)) (Fin 10),
      conn_record ''10.0.0.1'' ''10.0.0.2'' (Num (Fin 443)) (Fin 11),
      conn_record ''10.0.0.1'' ''10.0.0.2'' (Num (Fin 443)) (Fin 14)]"

section \<open>Properties of \<open>detectEncoding\<close>\<close>

lemmas char_class_defs = hex_regex_def b64_regex_def is_hex_char_def is_b64_char_def
  is_digit_def is_lower_def is_upper_def in_range_def code_def

lemma hex_imp_b64_char: "is_hex_char c \<Longrightarrow> is_b64_char c"
  by (auto simp: is_hex_char_def is_b64_char_def is_digit_def is_lower_def is_upper_def
      in_range_def code_def)

lemma hex_regex_imp_b64:
  assumes "hex_regex s"
  shows "b64_regex s"
proof -
  from assms have ne: "s \<noteq> []" and all: "\<forall>c\<in>set s. is_b64_char c"
    by (auto simp: hex_regex_def list_all_iff hex_imp_b64_char)
  from all have tw: "takeWhile is_b64_char s = s" and dw: "dropWhile is_b64_char s = []"
    by simp_all
  show ?thesis unfolding b64_regex_def Let_def tw dw using ne by simp
qed

text \<open>
  C10. The hex test comes first: a string of more than 10 characters, of even length and
  made of hexadecimal digits only also matches the base64 expression, and for it
  \<open>detectEncoding\<close> answers \<open>hex\<close>, not \<open>base64\<close>. The answer is \<open>base64\<close> exactly for the
  strings of more than 10 characters that match the base64 expression and fail the hex
  condition.
\<close>

theorem detectEncoding_hex_before_base64:
  "(hex_regex s \<and> 10 < length s \<and> even (length s) \<longrightarrow>
      b64_regex s \<and> detectEncoding s = Some ''hex'' \<and> detectEncoding s \<noteq> Some ''base64'')
   \<and> (detectEncoding s = Some ''base64'' \<longleftrightarrow>
      10 < length s \<and> b64_regex s \<and> \<not> (hex_regex s \<and> 10 < length s \<and> even (length s)))"
  by (auto simp: detectEncoding_def hex_regex_imp_b64)

theorem detectEncoding_hex_before_base64_witness:
  "hex_regex ''48656c6c6f576f726c64'' \<and> 10 < length ''48656c6c6f576f726c64''
   \<and> even (length ''48656c6c6f576f726c64'')
   \<and> b64_regex ''48656c6c6f576f726c64''
   \<and> detectEncoding ''48656c6c6f576f726c64'' = Some ''hex''
   \<and> detectEncoding ''aGVsbG8td29ybGQtdGhpcw=='' = Some ''base64''
   \<and> \<not> hex_regex ''aGVsbG8td29ybGQtdGhpcw==''"
  using detectEncoding_hex_before_base64 [of "''48656c6c6f576f726c64''"]
        detectEncoding_hex_before_base64 [of "''aGVsbG8td29ybGQtdGhpcw==''"]
  by (simp add: char_class_defs)

section \<open>Properties of the query engine\<close>

lemma set_insert_by: "set (insert_by cmp x ys) = insert x (set ys)"
  by (induction ys) auto

lemma length_insert_by: "length (insert_by cmp x ys) = Suc (length ys)"
  by (induction ys) auto

lemma length_js_sort: "length (js_sort cmp xs) = length xs"
  by (induction xs) (auto simp: length_insert_by)

lemma set_js_sort: "set (js_sort cmp xs) = set xs"
  by (induction xs) (auto simp: set_insert_by)

lemma compare_pos_absent:
  "num_lt (Fin 0) (compareRecords P f ord x y) \<Longrightarrow> getNestedValue y f \<noteq> Undefined"
  by (auto simp: compareRecords_def Let_def split: if_splits)

lemma compare_nonpos_absent:
  "\<not> num_lt (Fin 0) (compareRecords P f ord x y) \<Longrightarrow> getNestedValue x f = Undefined
    \<Longrightarrow> getNestedValue y f = Undefined"
  by (auto simp: compareRecords_def Let_def split: if_splits)

lemma insert_by_absent_last:
  assumes "sorted_wrt (\<lambda>a b. absent f a \<longrightarrow> absent f b) ys"
  shows "sorted_wrt (\<lambda>a b. absent f a \<longrightarrow> absent f b) (insert_by (compareRecords P f ord) x ys)"
  using assms
proof (induction ys)
  case Nil
  show ?case by simp
next
  case (Cons y ys)
  from Cons.prems have tl': "sorted_wrt (\<lambda>a b. absent f a \<longrightarrow> absent f b) ys"
    and hd': "\<forall>z\<in>set ys. absent f y \<longrightarrow> absent f z"
    by simp_all
  show ?case
  proof (cases "num_lt (Fin 0) (compareRecords P f ord x y)")
    case True
    then have ny: "\<not> absent f y" using compare_pos_absent [of P f ord x y] by (simp add: absent_def)
    have "sorted_wrt (\<lambda>a b. absent f a \<longrightarrow> absent f b) (y # insert_by (compareRecords P f ord) x ys)"
      using Cons.IH [OF tl'] ny by (simp add: set_insert_by)
    moreover have "insert_by (compareRecords P f ord) x (y # ys)
        = y # insert_by (compareRecords P f ord) x ys"
      using True by simp
    ultimately show ?thesis by (simp only:)
  next
    case False
    have xy: "absent f x \<longrightarrow> absent f y"
      unfolding absent_def by (rule impI) (rule compare_nonpos_absent [OF False])
    have "sorted_wrt (\<lambda>a b. absent f a \<longrightarrow> absent f b) (x # y # ys)"
    proof -
      have "\<forall>z\<in>set (y # ys). absent f x \<longrightarrow> absent f z"
      proof
        fix z assume "z \<in> set (y # ys)"
        then have "z = y \<or> z \<in> set ys" by simp
        then show "absent f x \<longrightarrow> absent f z" using xy hd' by blast
      qed
      then show ?thesis unfolding sorted_wrt.simps
        by (intro conjI) (assumption, rule hd', rule tl')
    qed
    moreover have "insert_by (compareRecords P f ord) x (y # ys) = x # y # ys"
      using False by simp
    ultimately show ?thesis by (simp only:)
  qed
qed

lemma js_sort_absent_last:
  "sorted_wrt (\<lambda>a b. absent f a \<longrightarrow> absent f b) (js_sort (compareRecords P f ord) xs)"
proof (induction xs)
  case Nil
  show ?case by simp
next
  case (Cons x xs)
  show ?case using insert_by_absent_last [OF Cons.IH] by (simp only: js_sort.simps)
qed

lemma slice0_take: "\<exists>n. slice0 xs e = take n xs"
proof (cases e)
  case PInf
  then have "slice0 xs e = take (length xs) xs" by (simp add: slice0_def)
  then show ?thesis by blast
next
  case NaN
  then have "slice0 xs e = take 0 xs" by (simp add: slice0_def)
  then show ?thesis by blast
next
  case NInf
  then have "slice0 xs e = take 0 xs" by (simp add: slice0_def)
  then show ?thesis by blast
next
  case (Fin x)
  then show ?thesis by (auto simp: slice0_def Let_def)
qed

lemma slice0_absent_last:
  "sorted_wrt R xs \<Longrightarrow> sorted_wrt R (slice0 xs e)"
  using slice0_take [of xs e] by (auto simp: sorted_wrt_take)

lemma slice0_PInf: "slice0 xs PInf = xs"
  by (simp add: slice0_def)

lemma num_le_refl: "a \<noteq> NaN \<Longrightarrow> num_le a a"
  by (cases a) auto

lemma num_le_trans: "num_le a b \<Longrightarrow> num_le b c \<Longrightarrow> num_le a c"
  by (cases a; cases b; cases c) auto

lemma num_min_le_right: "num_min a b \<noteq> NaN \<Longrightarrow> num_le (num_min a b) b"
  by (auto simp: num_min_def num_le_refl split: if_splits)

lemma length_slice0_le:
  assumes "num_le (Fin 0) e"
  shows "num_le (Fin (real (length (slice0 xs e)))) e"
proof (cases e)
  case (Fin x)
  with assms have x0: "0 \<le> x" by simp
  then have k: "trunc x = \<lfloor>x\<rfloor>" and k0: "0 \<le> \<lfloor>x\<rfloor>" by (simp_all add: trunc_def)
  have "length (slice0 xs e) \<le> nat \<lfloor>x\<rfloor>"
    using Fin k k0 by (simp add: slice0_def Let_def)
  then have "real (length (slice0 xs e)) \<le> real (nat \<lfloor>x\<rfloor>)" by simp
  also have "\<dots> \<le> x" using k0 by (simp add: of_nat_nat)
  finally show ?thesis using Fin by simp
qed (use assms in auto)

text \<open>
  C3, as amended. When the smaller of the requested limit (100 when none is given) and the
  ceiling \<open>maxResults\<close> is at least 0, the result of \<open>executeQuery\<close> has at most that
  many records, and so at most \<open>maxResults\<close> records. Every caller is in this case: the
  tool schemas accept an integer limit from 1 to 10000 and \<open>getConfig\<close> rejects a ceiling
  below 1.
\<close>

theorem executeQuery_length_le_limit:
  assumes "num_le (Fin 0)
             (num_min (case limit options of None \<Rightarrow> Fin 100 | Some l \<Rightarrow> l) (maxResults config))"
  shows "num_le (Fin (real (length (executeQuery P config options records))))
             (num_min (case limit options of None \<Rightarrow> Fin 100 | Some l \<Rightarrow> l) (maxResults config))
         \<and> num_le (Fin (real (length (executeQuery P config options records))))
             (maxResults config)"
proof -
  let ?m = "num_min (case limit options of None \<Rightarrow> Fin 100 | Some l \<Rightarrow> l) (maxResults config)"
  have A: "num_le (Fin (real (length (executeQuery P config options records)))) ?m"
    unfolding executeQuery_def Let_def by (rule length_slice0_le [OF assms])
  from assms have "?m \<noteq> NaN" by (cases ?m) auto
  then have "num_le ?m (maxResults config)" by (rule num_min_le_right)
  with A have "num_le (Fin (real (length (executeQuery P config options records)))) (maxResults config)"
    by (rule num_le_trans)
  with A show ?thesis by (rule conjI)
qed

theorem executeQuery_length_le_limit_witness:
  "num_le (Fin 0) (num_min (Fin 2) (Fin 1000))
   \<and> length (executeQuery example_platform
       \<lparr>logDir = ''/logs'', logArchive = ''/archive'', logFormat = ''json'', maxResults = Fin 1000\<rparr>
       \<lparr>logType = ''conn'', filters = None, timeFrom = None, timeTo = None,
        sortBy = None, sortOrder = None, limit = Some (Fin 2)\<rparr>
       [[(''ts'', Num (Fin 1))], [(''ts'', Num (Fin 2))], [(''ts'', Num (Fin 3))]]) = 2
   \<and> num_le (Fin (real (length (executeQuery example_platform
       \<lparr>logDir = ''/logs'', logArchive = ''/archive'', logFormat = ''json'', maxResults = Fin 1000\<rparr>
       \<lparr>logType = ''conn'', filters = None, timeFrom = None, timeTo = None,
        sortBy = None, sortOrder = None, limit = Some (Fin 2)\<rparr>
       [[(''ts'', Num (Fin 1))], [(''ts'', Num (Fin 2))], [(''ts'', Num (Fin 3))]])))) (num_min (Fin 2) (Fin 1000))"
proof -
  have ev: "executeQuery example_platform
       \<lparr>logDir = ''/logs'', logArchive = ''/archive'', logFormat = ''json'', maxResults = Fin 1000\<rparr>
       \<lparr>logType = ''conn'', filters = None, timeFrom = None, timeTo = None,
        sortBy = None, sortOrder = None, limit = Some (Fin 2)\<rparr>
       [[(''ts'', Num (Fin 1))], [(''ts'', Num (Fin 2))], [(''ts'', Num (Fin 3))]]
      = [[(''ts'', Num (Fin 3))], [(''ts'', Num (Fin 2))]]"
    by code_simp
  have h: "num_le (Fin 0) (num_min (Fin 2) (Fin 1000))"
    by (simp add: num_min_def)
  from executeQuery_length_le_limit [of
       "\<lparr>logType = ''conn'', filters = None, timeFrom = None, timeTo = None,
        sortBy = None, sortOrder = None, limit = Some (Fin 2)\<rparr>"
       "\<lparr>logDir = ''/logs'', logArchive = ''/archive'', logFormat = ''json'', maxResults = Fin 1000\<rparr>"
       example_platform "[[(''ts'', Num (Fin 1))], [(''ts'', Num (Fin 2))], [(''ts'', Num (Fin 3))]]"]
  show ?thesis using h ev by (simp add: num_min_def)
qed

text \<open>
  C3 as stated fails for a negative requested limit: \<^verbatim>\<open>slice(0, -1)\<close> drops the last
  record only. With three records, limit -1 and ceiling 1 the result has two records,
  more than the minimum -1 and more than the ceiling 1.
\<close>

theorem executeQuery_length_counterexample:
  "length (executeQuery example_platform
       \<lparr>logDir = ''/logs'', logArchive = ''/archive'', logFormat = ''json'', maxResults = Fin 1\<rparr>
       \<lparr>logType = ''conn'', filters = None, timeFrom = None, timeTo = None,
        sortBy = None, sortOrder = None, limit = Some (Fin (- 1))\<rparr>
       [[(''ts'', Num (Fin 1))], [(''ts'', Num (Fin 2))], [(''ts'', Num (Fin 3))]]) = 2
   \<and> \<not> num_le (Fin (real (length (executeQuery example_platform
       \<lparr>logDir = ''/logs'', logArchive = ''/archive'', logFormat = ''json'', maxResults = Fin 1\<rparr>
       \<lparr>logType = ''conn'', filters = None, timeFrom = None, timeTo = None,
        sortBy = None, sortOrder = None, limit = Some (Fin (- 1))\<rparr>
       [[(''ts'', Num (Fin 1))], [(''ts'', Num (Fin 2))], [(''ts'', Num (Fin 3))]])))) (num_min (Fin (- 1)) (Fin 1))
   \<and> \<not> num_le (Fin (real (length (executeQuery example_platform
       \<lparr>logDir = ''/logs'', logArchive = ''/archive'', logFormat = ''json'', maxResults = Fin 1\<rparr>
       \<lparr>logType = ''conn'', filters = None, timeFrom = None, timeTo = None,
        sortBy = None, sortOrder = None, limit = Some (Fin (- 1))\<rparr>
       [[(''ts'', Num (Fin 1))], [(''ts'', Num (Fin 2))], [(''ts'', Num (Fin 3))]])))) (Fin 1)"
proof -
  have ev: "executeQuery example_platform
       \<lparr>logDir = ''/logs'', logArchive = ''/archive'', logFormat = ''json'', maxResults = Fin 1\<rparr>
       \<lparr>logType = ''conn'', filters = None, timeFrom = None, timeTo = None,
        sortBy = None, sortOrder = None, limit = Some (Fin (- 1))\<rparr>
       [[(''ts'', Num (Fin 1))], [(''ts'', Num (Fin 2))], [(''ts'', Num (Fin 3))]]
      = [[(''ts'', Num (Fin 3))], [(''ts'', Num (Fin 2))]]"
    by code_simp
  show ?thesis unfolding ev by (simp add: num_min_def)
qed

text \<open>
  C4. In the result of \<open>executeQuery\<close> no record with a present sort field stands behind
  a record whose sort field is absent, whatever the sort order. For two records with
  present sort values the comparator is the difference of the values when both are
  numbers and \<^verbatim>\<open>localeCompare\<close> of their string forms otherwise, negated for the order
  \<open>desc\<close> and unchanged for any other.
\<close>

theorem executeQuery_absent_last:
  "(\<forall>i j. i < j \<and> j < length (executeQuery P config options records)
        \<and> getNestedValue (executeQuery P config options records ! i)
             (case sortBy options of None \<Rightarrow> ''ts'' | Some f \<Rightarrow> f) = Undefined
      \<longrightarrow> getNestedValue (executeQuery P config options records ! j)
             (case sortBy options of None \<Rightarrow> ''ts'' | Some f \<Rightarrow> f) = Undefined)
   \<and> (\<forall>a b sf ord x y.
        getNestedValue a sf = Num x \<and> getNestedValue b sf = Num y \<longrightarrow>
        compareRecords P sf ord a b =
          (if ord = ''desc'' then num_neg (num_sub x y) else num_sub x y))
   \<and> (\<forall>a b sf ord.
        getNestedValue a sf \<noteq> Undefined \<and> getNestedValue b sf \<noteq> Undefined
        \<and> \<not> (typeof_number (getNestedValue a sf) \<and> typeof_number (getNestedValue b sf)) \<longrightarrow>
        compareRecords P sf ord a b =
          (let cmp = Fin (real_of_int (localeCompare P (js_String P (getNestedValue a sf))
                                                       (js_String P (getNestedValue b sf))))
           in if ord = ''desc'' then num_neg cmp else cmp))"
proof -
  let ?f = "case sortBy options of None \<Rightarrow> ''ts'' | Some f \<Rightarrow> f"
  have "sorted_wrt (\<lambda>a b. absent ?f a \<longrightarrow> absent ?f b) (executeQuery P config options records)"
    unfolding executeQuery_def Let_def
    by (rule slice0_absent_last) (rule js_sort_absent_last)
  then have A: "\<forall>i j. i < j \<and> j < length (executeQuery P config options records)
        \<and> getNestedValue (executeQuery P config options records ! i) ?f = Undefined
      \<longrightarrow> getNestedValue (executeQuery P config options records ! j) ?f = Undefined"
    by (auto simp: sorted_wrt_iff_nth_less absent_def)
  have B: "\<forall>a b sf ord x y.
        getNestedValue a sf = Num x \<and> getNestedValue b sf = Num y \<longrightarrow>
        compareRecords P sf ord a b =
          (if ord = ''desc'' then num_neg (num_sub x y) else num_sub x y)"
    by (simp add: compareRecords_def Let_def typeof_number_def as_num_def)
  have C: "\<forall>a b sf ord.
        getNestedValue a sf \<noteq> Undefined \<and> getNestedValue b sf \<noteq> Undefined
        \<and> \<not> (typeof_number (getNestedValue a sf) \<and> typeof_number (getNestedValue b sf)) \<longrightarrow>
        compareRecords P sf ord a b =
          (let cmp = Fin (real_of_int (localeCompare P (js_String P (getNestedValue a sf))
                                                       (js_String P (getNestedValue b sf))))
           in if ord = ''desc'' then num_neg cmp else cmp)"
    by (simp add: compareRecords_def Let_def)
  show ?thesis by (rule conjI [OF A conjI [OF B C]])
qed

theorem executeQuery_absent_last_witness:
  "executeQuery example_platform
       \<lparr>logDir = ''/logs'', logArchive = ''/archive'', logFormat = ''json'', maxResults = Fin 1000\<rparr>
       \<lparr>logType = ''conn'', filters = None, timeFrom = None, timeTo = None,
        sortBy = Some ''duration'', sortOrder = Some ''asc'', limit = Some (Fin 100)\<rparr>
       [[(''uid'', Str ''a'')], [(''uid'', Str ''b''), (''duration'', Num (Fin 5))],
        [(''uid'', Str ''c''), (''duration'', Num (Fin 1))], [(''uid'', Str ''d'')],
        [(''uid'', Str ''e''), (''duration'', Num (Fin 3))]]
     = [[(''uid'', Str ''c''), (''duration'', Num (Fin 1))], [(''uid'', Str ''e''), (''duration'', Num (Fin 3))],
        [(''uid'', Str ''b''), (''duration'', Num (Fin 5))], [(''uid'', Str ''a'')],
        [(''uid'', Str ''d'')]]
   \<and> executeQuery example_platform
       \<lparr>logDir = ''/logs'', logArchive = ''/archive'', logFormat = ''json'', maxResults = Fin 1000\<rparr>
       \<lparr>logType = ''conn'', filters = None, timeFrom = None, timeTo = None,
        sortBy = Some ''duration'', sortOrder = Some ''desc'', limit = Some (Fin 100)\<rparr>
       [[(''uid'', Str ''a'')], [(''uid'', Str ''b''), (''duration'', Num (Fin 5))],
        [(''uid'', Str ''c''), (''duration'', Num (Fin 1))], [(''uid'', Str ''d'')],
        [(''uid'', Str ''e''), (''duration'', Num (Fin 3))]]
     = [[(''uid'', Str ''b''), (''duration'', Num (Fin 5))], [(''uid'', Str ''e''), (''duration'', Num (Fin 3))],
        [(''uid'', Str ''c''), (''duration'', Num (Fin 1))], [(''uid'', Str ''a'')],
        [(''uid'', Str ''d'')]]
   \<and> (3::nat) < 4
   \<and> 4 < length (executeQuery example_platform
       \<lparr>logDir = ''/logs'', logArchive = ''/archive'', logFormat = ''json'', maxResults = Fin 1000\<rparr>
       \<lparr>logType = ''conn'', filters = None, timeFrom = None, timeTo = None,
        sortBy = Some ''duration'', sortOrder = Some ''asc'', limit = Some (Fin 100)\<rparr>
       [[(''uid'', Str ''a'')], [(''uid'', Str ''b''), (''duration'', Num (Fin 5))],
        [(''uid'', Str ''c''), (''duration'', Num (Fin 1))], [(''uid'', Str ''d'')],
        [(''uid'', Str ''e''), (''duration'', Num (Fin 3))]])
   \<and> getNestedValue (executeQuery example_platform
       \<lparr>logDir = ''/logs'', logArchive = ''/archive'', logFormat = ''json'', maxResults = Fin 1000\<rparr>
       \<lparr>logType = ''conn'', filters = None, timeFrom = None, timeTo = None,
        sortBy = Some ''duration'', sortOrder = Some ''asc'', limit = Some (Fin 100)\<rparr>
       [[(''uid'', Str ''a'')], [(''uid'', Str ''b''), (''duration'', Num (Fin 5))],
        [(''uid'', Str ''c''), (''duration'', Num (Fin 1))], [(''uid'', Str ''d'')],
        [(''uid'', Str ''e''), (''duration'', Num (Fin 3))]] ! 3) ''duration'' = Undefined
   \<and> getNestedValue (executeQuery example_platform
       \<lparr>logDir = ''/logs'', logArchive = ''/archive'', logFormat = ''json'', maxResults = Fin 1000\<rparr>
       \<lparr>logType = ''conn'', filters = None, timeFrom = None, timeTo = None,
        sortBy = Some ''duration'', sortOrder = Some ''asc'', limit = Some (Fin 100)\<rparr>
       [[(''uid'', Str ''a'')], [(''uid'', Str ''b''), (''duration'', Num (Fin 5))],
        [(''uid'', Str ''c''), (''duration'', Num (Fin 1))], [(''uid'', Str ''d'')],
        [(''uid'', Str ''e''), (''duration'', Num (Fin 3))]] ! 4) ''duration'' = Undefined"
proof -
  have asc: "executeQuery example_platform
       \<lparr>logDir = ''/logs'', logArchive = ''/archive'', logFormat = ''json'', maxResults = Fin 1000\<rparr>
       \<lparr>logType = ''conn'', filters = None, timeFrom = None, timeTo = None,
        sortBy = Some ''duration'', sortOrder = Some ''asc'', limit = Some (Fin 100)\<rparr>
       [[(''uid'', Str ''a'')], [(''uid'', Str ''b''), (''duration'', Num (Fin 5))],
        [(''uid'', Str ''c''), (''duration'', Num (Fin 1))], [(''uid'', Str ''d'')],
        [(''uid'', Str ''e''), (''duration'', Num (Fin 3))]]
     = [[(''uid'', Str ''c''), (''duration'', Num (Fin 1))], [(''uid'', Str ''e''), (''duration'', Num (Fin 3))],
        [(''uid'', Str ''b''), (''duration'', Num (Fin 5))], [(''uid'', Str ''a'')],
        [(''uid'', Str ''d'')]]"
    by code_simp
  have desc: "executeQuery example_platform
       \<lparr>logDir = ''/logs'', logArchive = ''/archive'', logFormat = ''json'', maxResults = Fin 1000\<rparr>
       \<lparr>logType = ''conn'', filters = None, timeFrom = None, timeTo = None,
        sortBy = Some ''duration'', sortOrder = Some ''desc'', limit = Some (Fin 100)\<rparr>
       [[(''uid'', Str ''a'')], [(''uid'', Str ''b''), (''duration'', Num (Fin 5))],
        [(''uid'', Str ''c''), (''duration'', Num (Fin 1))], [(''uid'', Str ''d'')],
        [(''uid'', Str ''e''), (''duration'', Num (Fin 3))]]
     = [[(''uid'', Str ''b''), (''duration'', Num (Fin 5))], [(''uid'', Str ''e''), (''duration'', Num (Fin 3))],
        [(''uid'', Str ''c''), (''duration'', Num (Fin 1))], [(''uid'', Str ''a'')],
        [(''uid'', Str ''d'')]]"
    by code_simp
  have hyp: "(3::nat) < 4
     \<and> 4 < length (executeQuery example_platform
       \<lparr>logDir = ''/logs'', logArchive = ''/archive'', logFormat = ''json'', maxResults = Fin 1000\<rparr>
       \<lparr>logType = ''conn'', filters = None, timeFrom = None, timeTo = None,
        sortBy = Some ''duration'', sortOrder = Some ''asc'', limit = Some (Fin 100)\<rparr>
       [[(''uid'', Str ''a'')], [(''uid'', Str ''b''), (''duration'', Num (Fin 5))],
        [(''uid'', Str ''c''), (''duration'', Num (Fin 1))], [(''uid'', Str ''d'')],
        [(''uid'', Str ''e''), (''duration'', Num (Fin 3))]])
     \<and> getNestedValue (executeQuery example_platform
       \<lparr>logDir = ''/logs'', logArchive = ''/archive'', logFormat = ''json'', maxResults = Fin 1000\<rparr>
       \<lparr>logType = ''conn'', filters = None, timeFrom = None, timeTo = None,
        sortBy = Some ''duration'', sortOrder = Some ''asc'', limit = Some (Fin 100)\<rparr>
       [[(''uid'', Str ''a'')], [(''uid'', Str ''b''), (''duration'', Num (Fin 5))],
        [(''uid'', Str ''c''), (''duration'', Num (Fin 1))], [(''uid'', Str ''d'')],
        [(''uid'', Str ''e''), (''duration'', Num (Fin 3))]] ! 3)
          (case sortBy (\<lparr>logType = ''conn'', filters = None, timeFrom = None, timeTo = None,
        sortBy = Some ''duration'', sortOrder = Some ''asc'', limit = Some (Fin 100)\<rparr>) of None \<Rightarrow> ''ts'' | Some f \<Rightarrow> f) = Undefined"
    unfolding asc by code_simp
  have "getNestedValue (executeQuery example_platform
       \<lparr>logDir = ''/logs'', logArchive = ''/archive'', logFormat = ''json'', maxResults = Fin 1000\<rparr>
       \<lparr>logType = ''conn'', filters = None, timeFrom = None, timeTo = None,
        sortBy = Some ''duration'', sortOrder = Some ''asc'', limit = Some (Fin 100)\<rparr>
       [[(''uid'', Str ''a'')], [(''uid'', Str ''b''), (''duration'', Num (Fin 5))],
        [(''uid'', Str ''c''), (''duration'', Num (Fin 1))], [(''uid'', Str ''d'')],
        [(''uid'', Str ''e''), (''duration'', Num (Fin 3))]] ! 4)
          (case sortBy (\<lparr>logType = ''conn'', filters = None, timeFrom = None, timeTo = None,
        sortBy = Some ''duration'', sortOrder = Some ''asc'', limit = Some (Fin 100)\<rparr>) of None \<Rightarrow> ''ts'' | Some f \<Rightarrow> f) = Undefined"
    by (rule executeQuery_absent_last [THEN conjunct1, rule_format, OF hyp])
  then have c: "getNestedValue (executeQuery example_platform
       \<lparr>logDir = ''/logs'', logArchive = ''/archive'', logFormat = ''json'', maxResults = Fin 1000\<rparr>
       \<lparr>logType = ''conn'', filters = None, timeFrom = None, timeTo = None,
        sortBy = Some ''duration'', sortOrder = Some ''asc'', limit = Some (Fin 100)\<rparr>
       [[(''uid'', Str ''a'')], [(''uid'', Str ''b''), (''duration'', Num (Fin 5))],
        [(''uid'', Str ''c''), (''duration'', Num (Fin 1))], [(''uid'', Str ''d'')],
        [(''uid'', Str ''e''), (''duration'', Num (Fin 3))]] ! 4) ''duration'' = Undefined"
    by simp
  have l: "4 < length (executeQuery example_platform
       \<lparr>logDir = ''/logs'', logArchive = ''/archive'', logFormat = ''json'', maxResults = Fin 1000\<rparr>
       \<lparr>logType = ''conn'', filters = None, timeFrom = None, timeTo = None,
        sortBy = Some ''duration'', sortOrder = Some ''asc'', limit = Some (Fin 100)\<rparr>
       [[(''uid'', Str ''a'')], [(''uid'', Str ''b''), (''duration'', Num (Fin 5))],
        [(''uid'', Str ''c''), (''duration'', Num (Fin 1))], [(''uid'', Str ''d'')],
        [(''uid'', Str ''e''), (''duration'', Num (Fin 3))]])"
    using hyp by simp
  have a: "getNestedValue (executeQuery example_platform
       \<lparr>logDir = ''/logs'', logArchive = ''/archive'', logFormat = ''json'', maxResults = Fin 1000\<rparr>
       \<lparr>logType = ''conn'', filters = None, timeFrom = None, timeTo = None,
        sortBy = Some ''duration'', sortOrder = Some ''asc'', limit = Some (Fin 100)\<rparr>
       [[(''uid'', Str ''a'')], [(''uid'', Str ''b''), (''duration'', Num (Fin 5))],
        [(''uid'', Str ''c''), (''duration'', Num (Fin 1))], [(''uid'', Str ''d'')],
        [(''uid'', Str ''e''), (''duration'', Num (Fin 3))]] ! 3) ''duration'' = Undefined"
    using hyp by simp
  show ?thesis using asc desc l a c by (intro conjI) simp_all
qed

text \<open>
  C9. Without a limit in the options \<open>executeQuery\<close> behaves as with the limit 100: the
  result is the sorted and filtered sequence cut at the smaller of 100 and \<open>maxResults\<close>,
  so it has at most 100 records even under a larger ceiling.
\<close>

theorem executeQuery_default_limit:
  assumes "limit options = None"
  shows "executeQuery P config options records
           = executeQuery P config (options\<lparr>limit := Some (Fin 100)\<rparr>) records
         \<and> executeQuery P config options records
           = slice0 (executeQuery P (config\<lparr>maxResults := PInf\<rparr>) (options\<lparr>limit := Some PInf\<rparr>) records)
               (num_min (Fin 100) (maxResults config))
         \<and> (\<forall>c. maxResults config = Fin c \<and> 100 \<le> c \<longrightarrow>
               length (executeQuery P config options records) \<le> 100)"
proof -
  have A: "executeQuery P config options records
           = executeQuery P config (options\<lparr>limit := Some (Fin 100)\<rparr>) records"
    using assms by (simp add: executeQuery_def)
  have B: "executeQuery P config options records
           = slice0 (executeQuery P (config\<lparr>maxResults := PInf\<rparr>) (options\<lparr>limit := Some PInf\<rparr>) records)
               (num_min (Fin 100) (maxResults config))"
    using assms by (simp add: executeQuery_def Let_def num_min_def slice0_PInf)
  have C: "\<forall>c. maxResults config = Fin c \<and> 100 \<le> c \<longrightarrow>
               length (executeQuery P config options records) \<le> 100"
  proof (intro allI impI)
    fix c assume c: "maxResults config = Fin c \<and> 100 \<le> c"
    then have "num_min (Fin 100) (maxResults config) = Fin 100" by (simp add: num_min_def)
    then show "length (executeQuery P config options records) \<le> 100"
      unfolding B by (simp add: slice0_def trunc_def Let_def)
  qed
  show ?thesis by (rule conjI [OF A conjI [OF B C]])
qed

theorem executeQuery_default_limit_witness:
  "limit (\<lparr>logType = ''conn'', filters = None, timeFrom = None, timeTo = None,
        sortBy = None, sortOrder = None, limit = None\<rparr>) = None
   \<and> executeQuery example_platform
       \<lparr>logDir = ''/logs'', logArchive = ''/archive'', logFormat = ''json'', maxResults = Fin 1000\<rparr>
       \<lparr>logType = ''conn'', filters = None, timeFrom = None, timeTo = None,
        sortBy = None, sortOrder = None, limit = None\<rparr>
       [[(''ts'', Num (Fin 1))], [(''ts'', Num (Fin 2))], [(''ts'', Num (Fin 3))]]
     = executeQuery example_platform
         \<lparr>logDir = ''/logs'', logArchive = ''/archive'', logFormat = ''json'', maxResults = Fin 1000\<rparr>
         (\<lparr>logType = ''conn'', filters = None, timeFrom = None, timeTo = None,
        sortBy = None, sortOrder = None, limit = None\<rparr>\<lparr>limit := Some (Fin 100)\<rparr>)
         [[(''ts'', Num (Fin 1))], [(''ts'', Num (Fin 2))], [(''ts'', Num (Fin 3))]]
   \<and> executeQuery example_platform
       \<lparr>logDir = ''/logs'', logArchive = ''/archive'', logFormat = ''json'', maxResults = Fin 1000\<rparr>
       \<lparr>logType = ''conn'', filters = None, timeFrom = None, timeTo = None,
        sortBy = None, sortOrder = None, limit = None\<rparr>
       [[(''ts'', Num (Fin 1))], [(''ts'', Num (Fin 2))], [(''ts'', Num (Fin 3))]]
     = [[(''ts'', Num (Fin 3))], [(''ts'', Num (Fin 2))], [(''ts'', Num (Fin 1))]]"
proof -
  have h: "limit (\<lparr>logType = ''conn'', filters = None, timeFrom = None, timeTo = None,
        sortBy = None, sortOrder = None, limit = None\<rparr>) = None"
    by simp
  have ev: "executeQuery example_platform
       \<lparr>logDir = ''/logs'', logArchive = ''/archive'', logFormat = ''json'', maxResults = Fin 1000\<rparr>
       \<lparr>logType = ''conn'', filters = None, timeFrom = None, timeTo = None,
        sortBy = None, sortOrder = None, limit = None\<rparr>
       [[(''ts'', Num (Fin 1))], [(''ts'', Num (Fin 2))], [(''ts'', Num (Fin 3))]]
     = [[(''ts'', Num (Fin 3))], [(''ts'', Num (Fin 2))], [(''ts'', Num (Fin 1))]]"
    by code_simp
  from executeQuery_default_limit [OF h, of example_platform
       "\<lparr>logDir = ''/logs'', logArchive = ''/archive'', logFormat = ''json'', maxResults = Fin 1000\<rparr>" "[[(''ts'', Num (Fin 1))], [(''ts'', Num (Fin 2))], [(''ts'', Num (Fin 3))]]", THEN conjunct1]
  show ?thesis using ev by simp
qed

section \<open>Properties of the aggregator\<close>

lemma sum_bump: "sum_list (map snd (bump k m)) = Suc (sum_list (map snd m))"
  by (induction m) auto

lemma sum_counts_foldl:
  "sum_list (map snd (foldl (\<lambda>m r. bump (g r) m) m0 rs)) = sum_list (map snd m0) + length rs"
  by (induction rs arbitrary: m0) (auto simp: sum_bump)

lemma sum_insert_by:
  "sum_list (map snd (insert_by cmp x ys)) = snd x + sum_list (map (snd :: _ \<Rightarrow> nat) ys)"
  by (induction ys) auto

lemma sum_js_sort:
  "sum_list (map snd (js_sort cmp xs)) = sum_list (map (snd :: _ \<Rightarrow> nat) xs)"
  by (induction xs) (auto simp: sum_insert_by)

lemma sum_take_le: "sum_list (map f (take n xs)) \<le> sum_list (map (f :: _ \<Rightarrow> nat) xs)"
proof -
  have "sum_list (map f xs) = sum_list (map f (take n xs)) + sum_list (map f (drop n xs))"
    by (metis append_take_drop_id map_append sum_list.append)
  then show ?thesis by simp
qed

lemma sum_slice0_le: "sum_list (map f (slice0 xs e)) \<le> sum_list (map (f :: _ \<Rightarrow> nat) xs)"
  using slice0_take [of xs e] by (auto simp: sum_take_le)

text \<open>
  C7. For every record list, field and group limit, \<open>total\<close> of the result of \<open>groupBy\<close>
  is the number of records, and the counts of the returned groups add up to at most that
  total.
\<close>

theorem groupBy_total:
  "total (groupBy P r f lim0) = length r
   \<and> sum_list (map count (groups (groupBy P r f lim0))) \<le> total (groupBy P r f lim0)"
proof -
  let ?counts = "foldl (\<lambda>m rec. bump (group_key P f rec) m) [] r"
  let ?sorted = "slice0 (js_sort (\<lambda>a b. Fin (real (snd b) - real (snd a))) ?counts)
                     (case lim0 of None \<Rightarrow> Fin 20 | Some l \<Rightarrow> l)"
  have t: "total (groupBy P r f lim0) = length r"
    by (simp add: groupBy_def Let_def)
  have "map count (groups (groupBy P r f lim0)) = map snd ?sorted"
    by (simp add: groupBy_def Let_def case_prod_beta comp_def)
  then have "sum_list (map count (groups (groupBy P r f lim0))) = sum_list (map snd ?sorted)"
    by simp
  also have "\<dots> \<le> sum_list (map snd (js_sort (\<lambda>a b. Fin (real (snd b) - real (snd a))) ?counts))"
    by (rule sum_slice0_le)
  also have "\<dots> = sum_list (map snd ?counts)" by (rule sum_js_sort)
  also have "\<dots> = length r" using sum_counts_foldl [of "group_key P f" "[]" r] by simp
  finally show ?thesis using t by simp
qed

lemma sum_loop_skip:
  "foldl (\<lambda>tot rec. let v = getNestedValue rec f in if is_summable v then num_add tot (as_num v) else tot) t rs
   = foldl (\<lambda>tot rec. let v = getNestedValue rec f in if is_summable v then num_add tot (as_num v) else tot) t
       (filter (\<lambda>rec. is_summable (getNestedValue rec f)) rs)"
  by (induction rs arbitrary: t) (auto simp: Let_def)

lemma avg_loop_skip:
  "foldl (\<lambda>(tot, cnt) rec. let v = getNestedValue rec f
                                     in if is_summable v then (num_add tot (as_num v), cnt + 1)
                                        else (tot, cnt)) tc rs
   = foldl (\<lambda>(tot, cnt) rec. let v = getNestedValue rec f
                                     in if is_summable v then (num_add tot (as_num v), cnt + 1)
                                        else (tot, cnt)) tc
       (filter (\<lambda>rec. is_summable (getNestedValue rec f)) rs)"
  by (induction rs arbitrary: tc) (auto simp: Let_def)

text \<open>
  C2, as amended. \<open>sumField\<close> and \<open>avgField\<close> skip every record whose resolved value is
  not a number or is \<^verbatim>\<open>NaN\<close>: both give the same result on the records that pass the
  test \<open>is_summable\<close> alone. When no record passes, the sum is 0 and the average is 0, not
  \<^verbatim>\<open>NaN\<close>; so it is on the empty list.
\<close>

theorem sumField_avgField_skip:
  "sumField r f = sumField (filter (\<lambda>rec. is_summable (getNestedValue rec f)) r) f
   \<and> avgField r f = avgField (filter (\<lambda>rec. is_summable (getNestedValue rec f)) r) f
   \<and> ((\<forall>rec\<in>set r. \<not> is_summable (getNestedValue rec f)) \<longrightarrow>
        sumField r f = Fin 0 \<and> avgField r f = Fin 0)
   \<and> avgField [] f = Fin 0"
proof -
  have A: "sumField r f = sumField (filter (\<lambda>rec. is_summable (getNestedValue rec f)) r) f"
    unfolding sumField_def by (rule sum_loop_skip)
  have B: "avgField r f = avgField (filter (\<lambda>rec. is_summable (getNestedValue rec f)) r) f"
    unfolding avgField_def by (subst avg_loop_skip) (rule refl)
  have D: "avgField [] f = Fin 0" and D': "sumField [] f = Fin 0"
    by (simp_all add: avgField_def sumField_def)
  have C: "(\<forall>rec\<in>set r. \<not> is_summable (getNestedValue rec f)) \<longrightarrow>
        sumField r f = Fin 0 \<and> avgField r f = Fin 0"
  proof
    assume "\<forall>rec\<in>set r. \<not> is_summable (getNestedValue rec f)"
    then have "filter (\<lambda>rec. is_summable (getNestedValue rec f)) r = []"
      by (simp add: filter_empty_conv)
    with A B D D' show "sumField r f = Fin 0 \<and> avgField r f = Fin 0" by simp
  qed
  show ?thesis by (rule conjI [OF A conjI [OF B conjI [OF C D]]])
qed

theorem sumField_avgField_skip_witness:
  "list_all (\<lambda>rec. \<not> is_summable (getNestedValue rec ''x''))
     [[(''x'', Str ''a'')], [(''x'', Num NaN)], [(''y'', Num (Fin 1))]]
   \<and> sumField [[(''x'', Str ''a'')], [(''x'', Num NaN)], [(''y'', Num (Fin 1))]] ''x'' = Fin 0
   \<and> avgField [[(''x'', Str ''a'')], [(''x'', Num NaN)], [(''y'', Num (Fin 1))]] ''x'' = Fin 0"
proof -
  have h: "\<forall>rec\<in>set [[(''x'', Str ''a'')], [(''x'', Num NaN)], [(''y'', Num (Fin 1))]].
       \<not> is_summable (getNestedValue rec ''x'')"
    by code_simp
  from sumField_avgField_skip [of "[[(''x'', Str ''a'')], [(''x'', Num NaN)], [(''y'', Num (Fin 1))]]" "''x''"]
  have "(\<forall>rec\<in>set [[(''x'', Str ''a'')], [(''x'', Num NaN)], [(''y'', Num (Fin 1))]].
           \<not> is_summable (getNestedValue rec ''x'')) \<longrightarrow>
        sumField [[(''x'', Str ''a'')], [(''x'', Num NaN)], [(''y'', Num (Fin 1))]] ''x'' = Fin 0
        \<and> avgField [[(''x'', Str ''a'')], [(''x'', Num NaN)], [(''y'', Num (Fin 1))]] ''x'' = Fin 0"
    by (elim conjE)
  with h show ?thesis by (simp add: list_all_iff)
qed

text \<open>
  C2 as stated fails for an infinite value: it passes the test, is added to the sum and is
  counted, so the sum and the average of an infinity and 1 are not those of 1 alone.
\<close>

theorem sumField_infinite_counterexample:
  "sumField [[(''x'', Num PInf)], [(''x'', Num (Fin 1))]] ''x'' = PInf
   \<and> sumField [[(''x'', Num (Fin 1))]] ''x'' = Fin 1
   \<and> avgField [[(''x'', Num PInf)], [(''x'', Num (Fin 1))]] ''x'' = PInf
   \<and> avgField [[(''x'', Num (Fin 1))]] ''x'' = Fin 1"
  by code_simp

section \<open>Properties of CIDR matching\<close>



lemma split_go_no_sep:
  "d \<notin> set s \<Longrightarrow> split_go [d] cur s = [rev cur @ s]"
  by (induction s arbitrary: cur) auto

lemma split_go_at_sep:
  "d \<notin> set s \<Longrightarrow> split_go [d] cur (s @ d # t) = (rev cur @ s) # split_go [d] [] t"
  by (induction s arbitrary: cur) auto

lemma digit_val_10: "is_digit c \<Longrightarrow> digit_val 10 c = Some (code c - 48)"
  by (auto simp: digit_val_def is_digit_def in_range_def code_def Let_def)

lemma digit_not_space: "is_digit c \<Longrightarrow> \<not> is_space c \<and> c \<noteq> CHR ''+'' \<and> c \<noteq> CHR ''-''"
  by (auto simp: is_digit_def is_space_def in_range_def code_def)

lemma parseInt_digits:
  assumes "p \<noteq> []" "list_all is_digit p"
  shows "parseInt p 10 = Some (int (digits_value 10 p))"
proof -
  from assms obtain c q where p: "p = c # q" by (cases p) auto
  with assms have c: "is_digit c" by simp
  have s1: "dropWhile is_space p = p" using p c digit_not_space by simp
  have hd: "hd p \<noteq> CHR ''+''" "hd p \<noteq> CHR ''-''" using p c digit_not_space by auto
  have "\<forall>x\<in>set p. digit_val 10 x \<noteq> None"
    using assms(2) by (auto simp: list_all_iff digit_val_10)
  then have tw: "takeWhile (\<lambda>c. digit_val 10 c \<noteq> None) p = p" by simp
  show ?thesis unfolding parseInt_def Let_def s1 using hd assms(1) by (simp del: not_None_eq add: tw)
qed













text \<open>
  The query engine's own \<open>matchCidr\<close> has no IPv6 branch: an address without a dot does
  not split into four pieces, so it matches no CIDR that contains a slash.
\<close>

lemma engine_matchCidr_no_dot:
  "CHR ''.'' \<notin> set ip \<Longrightarrow> str_includes cidr ''/'' \<Longrightarrow> \<not> engine_matchCidr ip cidr"
  by (auto simp: engine_matchCidr_def matchCidr4_def ipv4ToNum_def split_def split_go_no_sep
      split: list.splits)

text \<open>
  C1. The claim asks the \<open>cidr\<close> filter operator to accept an IPv6 address inside an IPv6
  CIDR. \<open>applyFilter\<close> calls the engine's \<open>matchCidr\<close>, which answers false for the address
  \<open>2001:db8::1\<close> and the CIDR \<open>2001:db8::/32\<close>, while \<open>matchCidr\<close> of the filter module
  answers true on the same pair.
\<close>

theorem cidr_filter_ipv6_failing_input:
  "applyFilter example_platform [(''id.orig_h'', Str ''2001:db8::1'')]
     \<lparr>field = ''id.orig_h'', op = ''cidr'', fvalue = Str ''2001:db8::/32''\<rparr> = False
   \<and> engine_matchCidr ''2001:db8::1'' ''2001:db8::/32'' = False
   \<and> matchCidr ''2001:db8::1'' ''2001:db8::/32'' = True"
  by code_simp

section \<open>Properties of the port scan detector\<close>




























section \<open>Properties of the beacon detector\<close>

lemma map_of_push_to:
  "map_of (push_to k v m) =
     (map_of m)(k \<mapsto> (case map_of m k of None \<Rightarrow> [] | Some s \<Rightarrow> s) @ [v])"
  by (induction m) (auto simp: fun_eq_iff)

lemma keys_push_to: "set (map fst (push_to k v m)) = insert k (set (map fst m))"
proof (induction m)
  case Nil
  show ?case by simp
next
  case (Cons a m)
  obtain k' s where a: "a = (k', s)" by (cases a)
  show ?case using Cons by (cases "k = k'") (simp_all add: a insert_commute)
qed

lemma distinct_push_to: "distinct (map fst m) \<Longrightarrow> distinct (map fst (push_to k v m))"
proof (induction m)
  case Nil
  show ?case by simp
next
  case (Cons a m)
  obtain k' s where a: "a = (k', s)" by (cases a)
  show ?case
  proof (cases "k = k'")
    case True
    with Cons a show ?thesis by simp
  next
    case False
    have "k' \<notin> set (map fst (push_to k v m))"
      using Cons.prems a False by (simp only: keys_push_to) auto
    with Cons a False show ?thesis by simp
  qed
qed

lemma key_timestamps_snoc:
  "key_timestamps P (rs @ [r]) k =
     (if beacon_eligible P r \<and> beacon_key P r = k
      then key_timestamps P rs k @ [js_ToNumber P (get_prop r ''ts'')]
      else key_timestamps P rs k)"
  by (simp add: key_timestamps_def)

lemma beacon_step_alt:
  "beacon_step P pairs r =
     (if beacon_eligible P r
      then push_to (beacon_key P r) (js_ToNumber P (get_prop r ''ts'')) pairs else pairs)"
  by (auto simp: beacon_step_def Let_def beacon_eligible_def)

lemma pairs_invariant:
  "distinct (map fst (foldl (beacon_step P) [] rs))
   \<and> (\<forall>k. (case map_of (foldl (beacon_step P) [] rs) k of None \<Rightarrow> [] | Some s \<Rightarrow> s)
            = key_timestamps P rs k)"
proof (induction rs rule: rev_induct)
  case Nil
  show ?case by (simp add: key_timestamps_def)
next
  case (snoc r rs)
  let ?m = "foldl (beacon_step P) [] rs"
  from snoc have d: "distinct (map fst ?m)"
    and s: "\<And>k. (case map_of ?m k of None \<Rightarrow> [] | Some s \<Rightarrow> s) = key_timestamps P rs k"
    by blast+
  have step: "foldl (beacon_step P) [] (rs @ [r]) =
     (if beacon_eligible P r
      then push_to (beacon_key P r) (js_ToNumber P (get_prop r ''ts'')) ?m else ?m)"
    by (simp add: beacon_step_alt)
  show ?case
  proof (cases "beacon_eligible P r")
    case False
    with step d s show ?thesis by (simp add: key_timestamps_snoc)
  next
    case True
    have "distinct (map fst (push_to (beacon_key P r) (js_ToNumber P (get_prop r ''ts'')) ?m))"
      using d by (rule distinct_push_to)
    moreover have "\<And>k. (case map_of (push_to (beacon_key P r) (js_ToNumber P (get_prop r ''ts'')) ?m) k
                          of None \<Rightarrow> [] | Some s \<Rightarrow> s) = key_timestamps P (rs @ [r]) k"
      using True s by (simp add: map_of_push_to key_timestamps_snoc)
    ultimately show ?thesis using step True by simp
  qed
qed

lemma pairs_lookup:
  assumes "(k, ts) \<in> set (foldl (beacon_step P) [] rs)"
  shows "ts = key_timestamps P rs k"
proof -
  from pairs_invariant [of P rs]
  have d: "distinct (map fst (foldl (beacon_step P) [] rs))"
    and s: "(case map_of (foldl (beacon_step P) [] rs) k of None \<Rightarrow> [] | Some s \<Rightarrow> s)
            = key_timestamps P rs k"
    by blast+
  from d assms have "map_of (foldl (beacon_step P) [] rs) k = Some ts"
    by (rule map_of_is_SomeI)
  with s show ?thesis by simp
qed

lemma digit_char_is_digit: "d < 10 \<Longrightarrow> is_digit (digit_char d)"
  by (simp add: is_digit_def in_range_def code_def digit_char_def)

lemma digit_val_digit_char: "d < 10 \<Longrightarrow> digit_val 10 (digit_char d) = Some d"
  by (simp add: digit_val_10 digit_char_is_digit) (simp add: code_def digit_char_def)

lemma nat_to_string_digits: "nat_to_string n \<noteq> [] \<and> list_all is_digit (nat_to_string n)"
proof (induction n rule: nat_to_string.induct)
  case (1 n)
  show ?case
  proof (cases "n < 10")
    case True
    then show ?thesis by (simp add: nat_to_string.simps [of n] digit_char_is_digit)
  next
    case False
    with 1 show ?thesis by (simp add: nat_to_string.simps [of n] digit_char_is_digit)
  qed
qed

lemma digits_value_snoc:
  "digits_value r (z @ [c]) = digits_value r z * r + the (digit_val r c)"
  by (simp add: digits_value_def)

lemma digits_value_nat_to_string: "digits_value 10 (nat_to_string n) = n"
proof (induction n rule: nat_to_string.induct)
  case (1 n)
  show ?case
  proof (cases "n < 10")
    case True
    then show ?thesis
      by (simp add: nat_to_string.simps [of n] digits_value_def digit_val_digit_char)
  next
    case False
    with 1 have "digits_value 10 (nat_to_string (n div 10)) = n div 10" by simp
    with False show ?thesis
      by (simp add: nat_to_string.simps [of n] digits_value_snoc digit_val_digit_char)
  qed
qed

lemma parseInt_nat_to_string: "parseInt (nat_to_string n) 10 = Some (int n)"
  using nat_to_string_digits [of n]
  by (simp add: parseInt_digits digits_value_nat_to_string)

lemma nat_to_string_no_bar: "CHR ''|'' \<notin> set (nat_to_string n)"
proof
  assume "CHR ''|'' \<in> set (nat_to_string n)"
  with nat_to_string_digits [of n] have "is_digit CHR ''|''" by (auto simp: list_all_iff)
  then show False by (simp add: is_digit_def in_range_def code_def)
qed

lemma is_port_string:
  assumes "is_port v"
  shows "\<exists>n. v = Num (Fin (real n)) \<and> js_String P v = nat_to_string n"
proof -
  from assms obtain x where v: "v = Num (Fin x)" and x: "0 \<le> x" "x \<le> 65535" "real_of_int \<lfloor>x\<rfloor> = x"
    by (auto simp: is_port_def split: jsval.splits jsnum.splits)
  from x have f: "0 \<le> \<lfloor>x\<rfloor>" by simp
  from x f have r: "real (nat \<lfloor>x\<rfloor>) = x" by simp
  from x have "\<bar>x\<bar> < 10 ^ 21" by simp
  with x f have "js_String P (Num (Fin x)) = nat_to_string (nat \<lfloor>x\<rfloor>)"
    by (simp add: int_to_string_def)
  with v r show ?thesis by metis
qed

lemma split3:
  assumes "d \<notin> set a" "d \<notin> set b" "d \<notin> set c"
  shows "split (a @ [d] @ b @ [d] @ c) [d] = [a, b, c]"
  using assms by (simp add: split_def split_go_at_sep split_go_no_sep)

lemma beacon_wf_iff: "beacon_wf P rs \<longleftrightarrow> (\<forall>r\<in>set rs. wf_record P r)"
  by (simp add: beacon_wf_def wf_record_def list_all_iff)

lemma wf_key_split:
  assumes "wf_record P r"
  shows "\<exists>n. get_prop r ''id.resp_p'' = Num (Fin (real n))
            \<and> beacon_key P r = beacon_src P r @ ''|'' @ beacon_dst P r @ ''|'' @ nat_to_string n
            \<and> split (beacon_key P r) ''|'' = [beacon_src P r, beacon_dst P r, nat_to_string n]"
proof -
  from assms have p: "is_port (get_prop r ''id.resp_p'')"
    and s: "CHR ''|'' \<notin> set (beacon_src P r)" and d: "CHR ''|'' \<notin> set (beacon_dst P r)"
    by (simp_all add: wf_record_def)
  from is_port_string [OF p, of P] obtain n where
    n: "get_prop r ''id.resp_p'' = Num (Fin (real n))" and
    str: "js_String P (get_prop r ''id.resp_p'') = nat_to_string n" by blast
  have k: "beacon_key P r = beacon_src P r @ ''|'' @ beacon_dst P r @ ''|'' @ nat_to_string n"
    by (simp add: beacon_key_def beacon_port_def str)
  have "split (beacon_src P r @ ''|'' @ beacon_dst P r @ ''|'' @ nat_to_string n) ''|''
          = [beacon_src P r, beacon_dst P r, nat_to_string n]"
    using split3 [OF s d nat_to_string_no_bar [of n]] by simp
  with n k show ?thesis by metis
qed

lemma nat_to_string_inj:
  assumes "nat_to_string m = nat_to_string n"
  shows "m = n"
proof -
  have "m = digits_value 10 (nat_to_string m)" by (simp only: digits_value_nat_to_string)
  also have "\<dots> = digits_value 10 (nat_to_string n)" by (simp only: assms)
  also have "\<dots> = n" by (simp only: digits_value_nat_to_string)
  finally show ?thesis .
qed

lemma wf_key_eq:
  assumes "wf_record P r" "wf_record P r'"
  shows "beacon_key P r' = beacon_key P r \<longleftrightarrow>
         beacon_src P r' = beacon_src P r \<and> beacon_dst P r' = beacon_dst P r
         \<and> get_prop r' ''id.resp_p'' = get_prop r ''id.resp_p''"
proof
  assume eq: "beacon_key P r' = beacon_key P r"
  from wf_key_split [OF assms(1)] obtain n where
    n: "get_prop r ''id.resp_p'' = Num (Fin (real n))"
    and sp: "split (beacon_key P r) ''|'' = [beacon_src P r, beacon_dst P r, nat_to_string n]"
    by blast
  from wf_key_split [OF assms(2)] obtain n' where
    n': "get_prop r' ''id.resp_p'' = Num (Fin (real n'))"
    and sp': "split (beacon_key P r') ''|'' = [beacon_src P r', beacon_dst P r', nat_to_string n']"
    by blast
  from eq sp sp' have "beacon_src P r' = beacon_src P r" "beacon_dst P r' = beacon_dst P r"
    "nat_to_string n' = nat_to_string n" by simp_all
  with n n' show "beacon_src P r' = beacon_src P r \<and> beacon_dst P r' = beacon_dst P r
         \<and> get_prop r' ''id.resp_p'' = get_prop r ''id.resp_p''"
    by (simp add: nat_to_string_inj)
next
  assume "beacon_src P r' = beacon_src P r \<and> beacon_dst P r' = beacon_dst P r
         \<and> get_prop r' ''id.resp_p'' = get_prop r ''id.resp_p''"
  then show "beacon_key P r' = beacon_key P r"
    by (simp add: beacon_key_def beacon_port_def)
qed

text \<open>The group of a key is the group of the triple of any record filed under it.\<close>

lemma key_group_is_triple:
  assumes wf: "beacon_wf P rs" and r: "r \<in> set rs"
    and n: "get_prop r ''id.resp_p'' = Num (Fin (real n))"
  shows "key_timestamps P rs (beacon_key P r)
         = triple_timestamps P rs (beacon_src P r) (beacon_dst P r) (int n)"
proof -
  have "filter (\<lambda>r'. beacon_eligible P r' \<and> beacon_key P r' = beacon_key P r) rs
      = filter (\<lambda>r'. beacon_eligible P r' \<and> beacon_src P r' = beacon_src P r
                      \<and> beacon_dst P r' = beacon_dst P r
                      \<and> get_prop r' ''id.resp_p'' = Num (Fin (real_of_int (int n)))) rs"
  proof (rule filter_cong [OF refl])
    fix r' assume "r' \<in> set rs"
    with wf r have "wf_record P r'" "wf_record P r" by (simp_all add: beacon_wf_iff)
    from wf_key_eq [OF this(2,1)] n
    show "(beacon_eligible P r' \<and> beacon_key P r' = beacon_key P r) =
          (beacon_eligible P r' \<and> beacon_src P r' = beacon_src P r
                      \<and> beacon_dst P r' = beacon_dst P r
                      \<and> get_prop r' ''id.resp_p'' = Num (Fin (real_of_int (int n))))"
      by simp
  qed
  then show ?thesis by (simp add: key_timestamps_def triple_timestamps_def)
qed

lemma key_group_member:
  assumes "key_timestamps P rs k \<noteq> []"
  shows "\<exists>r\<in>set rs. beacon_eligible P r \<and> beacon_key P r = k"
proof -
  from assms have "filter (\<lambda>r. beacon_eligible P r \<and> beacon_key P r = k) rs \<noteq> []"
    by (auto simp: key_timestamps_def)
  then obtain r where "r \<in> set (filter (\<lambda>r. beacon_eligible P r \<and> beacon_key P r = k) rs)"
    by (cases "filter (\<lambda>r. beacon_eligible P r \<and> beacon_key P r = k) rs") auto
  then show ?thesis by auto
qed

text \<open>What a candidate says about the group it was built from.\<close>

lemma beacon_result_sel:
  "srcIp (beacon_result P rs s d ps ts ivs) = s"
  "dstIp (beacon_result P rs s d ps ts ivs) = d"
  "dstPort (beacon_result P rs s d ps ts ivs) = parseInt ps 10"
  "connectionCount (beacon_result P rs s d ps ts ivs) = length ts"
  by (simp_all add: beacon_result_def Let_def)

lemma beacon_candidate_unfold:
  "beacon_candidate P rs minC maxJ k ts =
     (if num_lt (Fin (real (length ts))) minC then None
      else if intervals_of (js_sort num_sub ts) = [] then None
      else if mean_of (intervals_of (js_sort num_sub ts)) = Fin 0 then None
      else if num_lt maxJ (jitter_of (intervals_of (js_sort num_sub ts))) then None
      else (case split k ''|'' of
              src # dst # port # _ \<Rightarrow>
                Some (beacon_result P rs src dst port (js_sort num_sub ts)
                        (intervals_of (js_sort num_sub ts)))
            | _ \<Rightarrow> None))"
  by (simp add: beacon_candidate_def Let_def)

lemma beacon_candidate_Some:
  assumes "beacon_candidate P rs minC maxJ k ts = Some c"
    and "split k ''|'' = [s, d, ps]"
  shows "srcIp c = s \<and> dstIp c = d \<and> dstPort c = parseInt ps 10
         \<and> connectionCount c = length ts
         \<and> \<not> num_lt (Fin (real (length ts))) minC
         \<and> intervals_of (js_sort num_sub ts) \<noteq> []
         \<and> mean_of (intervals_of (js_sort num_sub ts)) \<noteq> Fin 0
         \<and> \<not> num_lt maxJ (jitter_of (intervals_of (js_sort num_sub ts)))"
proof -
  have g1: "\<not> num_lt (Fin (real (length ts))) minC"
    using assms(1) unfolding beacon_candidate_unfold by (simp split: if_splits)
  have g2: "intervals_of (js_sort num_sub ts) \<noteq> []"
    using assms(1) unfolding beacon_candidate_unfold by (simp split: if_splits)
  have g3: "mean_of (intervals_of (js_sort num_sub ts)) \<noteq> Fin 0"
    using assms(1) unfolding beacon_candidate_unfold by (simp split: if_splits)
  have g4: "\<not> num_lt maxJ (jitter_of (intervals_of (js_sort num_sub ts)))"
    using assms(1) unfolding beacon_candidate_unfold by (simp split: if_splits)
  have "c = beacon_result P rs s d ps (js_sort num_sub ts) (intervals_of (js_sort num_sub ts))"
    using assms g1 g2 g3 g4 unfolding beacon_candidate_unfold by simp
  then have "srcIp c = s" "dstIp c = d" "dstPort c = parseInt ps 10"
    "connectionCount c = length ts"
    by (simp_all add: beacon_result_sel length_js_sort)
  with g1 g2 g3 g4 show ?thesis by (intro conjI)
qed

lemma set_map_filter_eq: "set (List.map_filter f xs) = {y. \<exists>x\<in>set xs. f x = Some y}"
  by (induction xs) (auto split: option.splits)

lemma detectBeaconing_set:
  "set (detectBeaconing P rs m0 j0) =
     {c. \<exists>k ts. (k, ts) \<in> set (foldl (beacon_step P) [] rs)
           \<and> beacon_candidate P rs (or_default (Fin 10) m0) (or_default (Fin 30) j0) k ts = Some c}"
  unfolding detectBeaconing_def Let_def set_js_sort set_map_filter_eq by force

lemma is_fin_iff: "is_fin a \<longleftrightarrow> (\<exists>x. a = Fin x)"
  by (cases a) (simp_all add: is_fin_def)

lemma fin_sub: "is_fin a \<Longrightarrow> is_fin b \<Longrightarrow> is_fin (num_sub a b)"
  by (auto simp: is_fin_iff num_sub_def)

lemma fin_intervals:
  assumes "\<forall>a\<in>set ts. is_fin a"
  shows "\<forall>i\<in>set (intervals_of ts). is_fin i"
proof
  fix i assume "i \<in> set (intervals_of ts)"
  then obtain a b where ab: "(a, b) \<in> set (zip ts (tl ts))" and i: "i = num_sub b a"
    by (auto simp: intervals_of_def)
  from ab have "a \<in> set ts" by (rule set_zip_leftD)
  moreover from ab have "b \<in> set (tl ts)" by (rule set_zip_rightD)
  then have "b \<in> set ts" by (cases ts) auto
  ultimately show "is_fin i" using assms i by (simp add: fin_sub)
qed

lemma fin_foldl_add:
  "is_fin a \<Longrightarrow> \<forall>i\<in>set xs. is_fin i \<Longrightarrow> is_fin (foldl num_add a xs)"
proof (induction xs arbitrary: a)
  case Nil
  then show ?case by simp
next
  case (Cons x xs)
  from Cons.prems have "is_fin (num_add a x)" by (auto simp: is_fin_iff)
  with Cons show ?case by simp
qed

lemma fin_mean:
  assumes "xs \<noteq> []" "\<forall>i\<in>set xs. is_fin i"
  shows "is_fin (mean_of xs)"
proof -
  have "is_fin (foldl num_add (Fin 0) xs)"
    using assms(2) by (intro fin_foldl_add) (simp_all add: is_fin_iff)
  then obtain s where "foldl num_add (Fin 0) xs = Fin s" by (auto simp: is_fin_iff)
  with assms(1) show ?thesis by (simp add: mean_of_def is_fin_iff)
qed

lemma fin_square_fold:
  assumes "\<forall>i\<in>set xs. is_fin i" "0 \<le> a"
  shows "\<exists>v\<ge>0. foldl (\<lambda>s i. num_add s (num_pow2 (num_sub i (Fin m)))) (Fin a) xs = Fin v"
  using assms
proof (induction xs arbitrary: a)
  case Nil
  then show ?case by simp
next
  case (Cons x xs)
  from Cons.prems obtain y where y: "x = Fin y" by (auto simp: is_fin_iff)
  have step: "num_add (Fin a) (num_pow2 (num_sub x (Fin m))) = Fin (a + (y - m) * (y - m))"
    by (simp add: y num_pow2_def num_sub_def)
  have "0 \<le> a + (y - m) * (y - m)" using Cons.prems(2) by simp
  with Cons.IH [of "a + (y - m) * (y - m)"] Cons.prems(1) step show ?case by simp
qed

lemma fin_jitter:
  assumes ne: "xs \<noteq> []" and fin: "\<forall>i\<in>set xs. is_fin i" and m0: "mean_of xs \<noteq> Fin 0"
  shows "is_fin (jitter_of xs)"
proof -
  from fin_mean [OF ne fin] obtain m where m: "mean_of xs = Fin m" by (auto simp: is_fin_iff)
  with m0 have mz: "m \<noteq> 0" by simp
  from fin_square_fold [OF fin, of 0 m] obtain v where v: "0 \<le> v"
    and f: "foldl (\<lambda>s i. num_add s (num_pow2 (num_sub i (Fin m)))) (Fin 0) xs = Fin v"
    by auto
  from ne have l: "real (length xs) \<noteq> 0" by simp
  have var: "variance_of xs = Fin (v / real (length xs))"
    unfolding variance_of_def m f using l by simp
  have "0 \<le> v / real (length xs)" using v by simp
  then have "num_sqrt (variance_of xs) = Fin (sqrt (v / real (length xs)))"
    unfolding var by simp
  then show ?thesis unfolding jitter_of_def m using mz by (simp add: is_fin_iff)
qed

lemma not_lt_le: "a \<noteq> NaN \<Longrightarrow> b \<noteq> NaN \<Longrightarrow> \<not> num_lt a b \<Longrightarrow> num_le b a"
  by (cases a; cases b) auto

lemma le_not_lt: "num_le a b \<Longrightarrow> \<not> num_lt b a"
  by (cases a; cases b) auto

lemma triple_timestamps_fin:
  assumes "beacon_wf P rs"
  shows "\<forall>a\<in>set (triple_timestamps P rs s d p). is_fin a"
proof
  fix a assume "a \<in> set (triple_timestamps P rs s d p)"
  then obtain r where r: "r \<in> set rs" "beacon_eligible P r"
    and a: "a = js_ToNumber P (get_prop r ''ts'')"
    by (auto simp: triple_timestamps_def)
  from assms r(1) have "finite_or_absent (get_prop r ''ts'')"
    by (simp add: beacon_wf_iff wf_record_def)
  moreover from r(2) have "truthy (get_prop r ''ts'')" by (simp add: beacon_eligible_def)
  ultimately obtain x where "get_prop r ''ts'' = Num (Fin x)"
    by (auto simp: finite_or_absent_def truthy_def split: jsval.splits jsnum.splits)
  with a show "is_fin a" by (simp add: js_ToNumber_def is_fin_iff)
qed

lemma beacon_candidate_nonempty:
  assumes "beacon_candidate P rs minC maxJ k ts = Some c"
  shows "ts \<noteq> []"
proof
  assume "ts = []"
  then have "intervals_of (js_sort num_sub ts) = []" by (simp add: intervals_of_def)
  with assms show False unfolding beacon_candidate_unfold by (simp split: if_splits)
qed

text \<open>Every candidate stems from the group of one well-formed triple.\<close>

lemma candidate_origin:
  assumes wf: "beacon_wf P rs" and c: "c \<in> set (detectBeaconing P rs m0 j0)"
  shows "\<exists>n. dstPort c = Some (int n)
           \<and> beacon_candidate P rs (or_default (Fin 10) m0) (or_default (Fin 30) j0)
                (srcIp c @ ''|'' @ dstIp c @ ''|'' @ nat_to_string n)
                (triple_timestamps P rs (srcIp c) (dstIp c) (int n)) = Some c
           \<and> split (srcIp c @ ''|'' @ dstIp c @ ''|'' @ nat_to_string n) ''|''
                = [srcIp c, dstIp c, nat_to_string n]"
proof -
  from c obtain k ts where m: "(k, ts) \<in> set (foldl (beacon_step P) [] rs)"
    and bc: "beacon_candidate P rs (or_default (Fin 10) m0) (or_default (Fin 30) j0) k ts = Some c"
    unfolding detectBeaconing_set by blast
  from m have ts: "ts = key_timestamps P rs k" by (rule pairs_lookup)
  from bc have "ts \<noteq> []" by (rule beacon_candidate_nonempty)
  with ts obtain r where r: "r \<in> set rs" and k: "beacon_key P r = k"
    using key_group_member [of P rs k] by auto
  from wf r have wr: "wf_record P r" by (simp add: beacon_wf_iff)
  from wf_key_split [OF wr] k obtain n where
    n: "get_prop r ''id.resp_p'' = Num (Fin (real n))"
    and ke: "k = beacon_src P r @ ''|'' @ beacon_dst P r @ ''|'' @ nat_to_string n"
    and sp: "split k ''|'' = [beacon_src P r, beacon_dst P r, nat_to_string n]"
    by auto
  from beacon_candidate_Some [OF bc sp]
  have f: "srcIp c = beacon_src P r" "dstIp c = beacon_dst P r"
    "dstPort c = parseInt (nat_to_string n) 10"
    by simp_all
  have g: "ts = triple_timestamps P rs (beacon_src P r) (beacon_dst P r) (int n)"
    using key_group_is_triple [OF wf r n] ts k by simp
  from f have "dstPort c = Some (int n)" by (simp add: parseInt_nat_to_string)
  moreover have "beacon_candidate P rs (or_default (Fin 10) m0) (or_default (Fin 30) j0)
                (srcIp c @ ''|'' @ dstIp c @ ''|'' @ nat_to_string n)
                (triple_timestamps P rs (srcIp c) (dstIp c) (int n)) = Some c"
    using bc by (simp only: f(1,2) g [symmetric] ke [symmetric])
  moreover have "split (srcIp c @ ''|'' @ dstIp c @ ''|'' @ nat_to_string n) ''|''
                = [srcIp c, dstIp c, nat_to_string n]"
    using sp by (simp only: f(1,2) ke [symmetric])
  ultimately show ?thesis by blast
qed

lemma candidate_facts:
  assumes wf: "beacon_wf P records"
    and mn: "or_default (Fin 10) m0 \<noteq> NaN" and jn: "or_default (Fin 30) j0 \<noteq> NaN"
    and c: "c \<in> set (detectBeaconing P records m0 j0)"
  shows "\<exists>p. dstPort c = Some p
          \<and> connectionCount c = length (triple_timestamps P records (srcIp c) (dstIp c) p)
          \<and> num_le (or_default (Fin 10) m0)
               (Fin (real (length (triple_timestamps P records (srcIp c) (dstIp c) p))))
          \<and> mean_of (intervals_of (js_sort num_sub
               (triple_timestamps P records (srcIp c) (dstIp c) p))) \<noteq> Fin 0
          \<and> num_le (jitter_of (intervals_of (js_sort num_sub
               (triple_timestamps P records (srcIp c) (dstIp c) p))))
               (or_default (Fin 30) j0)"
proof -
  from candidate_origin [OF wf c] obtain n where
    p: "dstPort c = Some (int n)"
    and bc: "beacon_candidate P records (or_default (Fin 10) m0) (or_default (Fin 30) j0)
                (srcIp c @ ''|'' @ dstIp c @ ''|'' @ nat_to_string n)
                (triple_timestamps P records (srcIp c) (dstIp c) (int n)) = Some c"
    and sp: "split (srcIp c @ ''|'' @ dstIp c @ ''|'' @ nat_to_string n) ''|''
                = [srcIp c, dstIp c, nat_to_string n]"
    by blast
  let ?ts = "triple_timestamps P records (srcIp c) (dstIp c) (int n)"
  let ?ivs = "intervals_of (js_sort num_sub ?ts)"
  from beacon_candidate_Some [OF bc sp]
  have cnt: "connectionCount c = length ?ts"
    and g1: "\<not> num_lt (Fin (real (length ?ts))) (or_default (Fin 10) m0)"
    and g2: "?ivs \<noteq> []"
    and g3: "mean_of ?ivs \<noteq> Fin 0"
    and g4: "\<not> num_lt (or_default (Fin 30) j0) (jitter_of ?ivs)"
    by simp_all
  have "\<forall>a\<in>set (js_sort num_sub ?ts). is_fin a"
    using triple_timestamps_fin [OF wf] by (simp add: set_js_sort)
  then have "\<forall>i\<in>set ?ivs. is_fin i" by (rule fin_intervals)
  with g2 g3 have "is_fin (jitter_of ?ivs)" by (intro fin_jitter)
  then have "jitter_of ?ivs \<noteq> NaN" by (auto simp: is_fin_iff)
  with g4 jn have le: "num_le (jitter_of ?ivs) (or_default (Fin 30) j0)"
    by (intro not_lt_le)
  from g1 mn have ge: "num_le (or_default (Fin 10) m0) (Fin (real (length ?ts)))"
    by (intro not_lt_le) simp_all
  from p cnt ge g3 le show ?thesis by blast
qed

lemma single_group:
  assumes "foldl (beacon_step P) [] rs = [(k, ts)]"
    and "beacon_candidate P rs (or_default (Fin 10) m0) (or_default (Fin 30) j0) k ts = Some c"
  shows "detectBeaconing P rs m0 j0 = [c]"
  using assms by (simp add: detectBeaconing_def Let_def)

lemma candidate_eval:
  assumes "\<not> num_lt (Fin (real (length ts))) minC"
    and "js_sort num_sub ts = sts" and "intervals_of sts = ivs" and "ivs \<noteq> []"
    and "mean_of ivs \<noteq> Fin 0" and "\<not> num_lt maxJ (jitter_of ivs)"
    and "split k ''|'' = s # d # ps # rest"
  shows "beacon_candidate P rs minC maxJ k ts = Some (beacon_result P rs s d ps sts ivs)"
  using assms by (simp add: beacon_candidate_unfold)

lemma sel4:
  "(\<lambda>c. (srcIp c, dstIp c, dstPort c, connectionCount c)) (beacon_result P rs s d ps ts ivs)
     = (s, d, parseInt ps 10, length ts)"
  by (simp add: beacon_result_sel)

lemma ex_regular_pairs:
  "foldl (beacon_step example_platform) [] beacon_example = [(''192.168.1.100|45.33.32.156|443'', [Fin 60, Fin 120, Fin 180])]"
  by code_simp

lemma ex_regular_sort: "js_sort num_sub [Fin 60, Fin 120, Fin 180] = [Fin 60, Fin 120, Fin 180]"
  by code_simp

lemma ex_regular_ivs: "intervals_of [Fin 60, Fin 120, Fin 180] = [Fin 60, Fin 60]"
  by code_simp

lemma ex_regular_mean: "mean_of [Fin 60, Fin 60] = Fin 60"
  by code_simp

lemma ex_regular_var: "variance_of [Fin 60, Fin 60] = Fin 0"
  by code_simp

lemma ex_regular_jitter: "jitter_of [Fin 60, Fin 60] = Fin 0"
  by (simp add: jitter_of_def ex_regular_var ex_regular_mean)

lemma ex_regular_split: "split ''192.168.1.100|45.33.32.156|443'' ''|'' = [''192.168.1.100'', ''45.33.32.156'', ''443'']"
  by code_simp

lemma ex_regular_port: "parseInt ''443'' 10 = Some 443"
  by code_simp

lemma ex_regular_out:
  "detectBeaconing example_platform beacon_example (Some (Fin 3)) (None)
     = [beacon_result example_platform beacon_example ''192.168.1.100'' ''45.33.32.156'' ''443''
          [Fin 60, Fin 120, Fin 180] [Fin 60, Fin 60]]"
proof -
  have "beacon_candidate example_platform beacon_example
          (or_default (Fin 10) (Some (Fin 3))) (or_default (Fin 30) (None)) ''192.168.1.100|45.33.32.156|443'' [Fin 60, Fin 120, Fin 180]
        = Some (beacon_result example_platform beacon_example ''192.168.1.100'' ''45.33.32.156'' ''443''
          [Fin 60, Fin 120, Fin 180] [Fin 60, Fin 60])"
    by (rule candidate_eval [OF _ ex_regular_sort ex_regular_ivs _ _ _ ex_regular_split])
       (simp_all add: or_default_def ex_regular_mean ex_regular_jitter)
  then show ?thesis by (rule single_group [OF ex_regular_pairs])
qed

lemma ex_bar_pairs:
  "foldl (beacon_step example_platform) [] beacon_bar_example = [(''a|b|c|1'', [Fin 60, Fin 120])]"
  by code_simp

lemma ex_bar_sort: "js_sort num_sub [Fin 60, Fin 120] = [Fin 60, Fin 120]"
  by code_simp

lemma ex_bar_ivs: "intervals_of [Fin 60, Fin 120] = [Fin 60]"
  by code_simp

lemma ex_bar_mean: "mean_of [Fin 60] = Fin 60"
  by code_simp

lemma ex_bar_var: "variance_of [Fin 60] = Fin 0"
  by code_simp

lemma ex_bar_jitter: "jitter_of [Fin 60] = Fin 0"
  by (simp add: jitter_of_def ex_bar_var ex_bar_mean)

lemma ex_bar_split: "split ''a|b|c|1'' ''|'' = [''a'', ''b'', ''c'', ''1'']"
  by code_simp

lemma ex_bar_port: "parseInt ''c'' 10 = None"
  by code_simp

lemma ex_bar_out:
  "detectBeaconing example_platform beacon_bar_example (Some (Fin 2)) (None)
     = [beacon_result example_platform beacon_bar_example ''a'' ''b'' ''c''
          [Fin 60, Fin 120] [Fin 60]]"
proof -
  have "beacon_candidate example_platform beacon_bar_example
          (or_default (Fin 10) (Some (Fin 2))) (or_default (Fin 30) (None)) ''a|b|c|1'' [Fin 60, Fin 120]
        = Some (beacon_result example_platform beacon_bar_example ''a'' ''b'' ''c''
          [Fin 60, Fin 120] [Fin 60])"
    by (rule candidate_eval [OF _ ex_bar_sort ex_bar_ivs _ _ _ ex_bar_split])
       (simp_all add: or_default_def ex_bar_mean ex_bar_jitter)
  then show ?thesis by (rule single_group [OF ex_bar_pairs])
qed

lemma ex_inf_pairs:
  "foldl (beacon_step example_platform) [] beacon_inf_example = [(''10.0.0.1|10.0.0.2|443'', [PInf, PInf])]"
  by code_simp

lemma ex_inf_sort: "js_sort num_sub [PInf, PInf] = [PInf, PInf]"
  by code_simp

lemma ex_inf_ivs: "intervals_of [PInf, PInf] = [NaN]"
  by code_simp

lemma ex_inf_mean: "mean_of [NaN] = NaN"
  by code_simp

lemma ex_inf_var: "variance_of [NaN] = NaN"
  by code_simp

lemma ex_inf_jitter: "jitter_of [NaN] = NaN"
  by (simp add: jitter_of_def ex_inf_var ex_inf_mean)

lemma ex_inf_split: "split ''10.0.0.1|10.0.0.2|443'' ''|'' = [''10.0.0.1'', ''10.0.0.2'', ''443'']"
  by code_simp

lemma ex_inf_port: "parseInt ''443'' 10 = Some 443"
  by code_simp

lemma ex_inf_out:
  "detectBeaconing example_platform beacon_inf_example (Some (Fin 2)) (None)
     = [beacon_result example_platform beacon_inf_example ''10.0.0.1'' ''10.0.0.2'' ''443''
          [PInf, PInf] [NaN]]"
proof -
  have "beacon_candidate example_platform beacon_inf_example
          (or_default (Fin 10) (Some (Fin 2))) (or_default (Fin 30) (None)) ''10.0.0.1|10.0.0.2|443'' [PInf, PInf]
        = Some (beacon_result example_platform beacon_inf_example ''10.0.0.1'' ''10.0.0.2'' ''443''
          [PInf, PInf] [NaN])"
    by (rule candidate_eval [OF _ ex_inf_sort ex_inf_ivs _ _ _ ex_inf_split])
       (simp_all add: or_default_def ex_inf_mean ex_inf_jitter)
  then show ?thesis by (rule single_group [OF ex_inf_pairs])
qed

lemma ex_noport_pairs:
  "foldl (beacon_step example_platform) [] beacon_noport_example = [(''10.0.0.1|10.0.0.2|undefined'', [Fin 60, Fin 120])]"
  by code_simp

lemma ex_noport_sort: "js_sort num_sub [Fin 60, Fin 120] = [Fin 60, Fin 120]"
  by code_simp

lemma ex_noport_ivs: "intervals_of [Fin 60, Fin 120] = [Fin 60]"
  by code_simp

lemma ex_noport_mean: "mean_of [Fin 60] = Fin 60"
  by code_simp

lemma ex_noport_var: "variance_of [Fin 60] = Fin 0"
  by code_simp

lemma ex_noport_jitter: "jitter_of [Fin 60] = Fin 0"
  by (simp add: jitter_of_def ex_noport_var ex_noport_mean)

lemma ex_noport_split: "split ''10.0.0.1|10.0.0.2|undefined'' ''|'' = [''10.0.0.1'', ''10.0.0.2'', ''undefined'']"
  by code_simp

lemma ex_noport_port: "parseInt ''undefined'' 10 = None"
  by code_simp

lemma ex_noport_out:
  "detectBeaconing example_platform beacon_noport_example (Some (Fin 2)) (None)
     = [beacon_result example_platform beacon_noport_example ''10.0.0.1'' ''10.0.0.2'' ''undefined''
          [Fin 60, Fin 120] [Fin 60]]"
proof -
  have "beacon_candidate example_platform beacon_noport_example
          (or_default (Fin 10) (Some (Fin 2))) (or_default (Fin 30) (None)) ''10.0.0.1|10.0.0.2|undefined'' [Fin 60, Fin 120]
        = Some (beacon_result example_platform beacon_noport_example ''10.0.0.1'' ''10.0.0.2'' ''undefined''
          [Fin 60, Fin 120] [Fin 60])"
    by (rule candidate_eval [OF _ ex_noport_sort ex_noport_ivs _ _ _ ex_noport_split])
       (simp_all add: or_default_def ex_noport_mean ex_noport_jitter)
  then show ?thesis by (rule single_group [OF ex_noport_pairs])
qed

lemma ex_nan_pairs:
  "foldl (beacon_step example_platform) [] beacon_nan_example = [(''10.0.0.1|10.0.0.2|443'', [Fin 10, Fin 11, Fin 14])]"
  by code_simp

lemma ex_nan_sort: "js_sort num_sub [Fin 10, Fin 11, Fin 14] = [Fin 10, Fin 11, Fin 14]"
  by code_simp

lemma ex_nan_ivs: "intervals_of [Fin 10, Fin 11, Fin 14] = [Fin 1, Fin 3]"
  by code_simp

lemma ex_nan_mean: "mean_of [Fin 1, Fin 3] = Fin 2"
  by code_simp

lemma ex_nan_var: "variance_of [Fin 1, Fin 3] = Fin 1"
  by code_simp

lemma ex_nan_jitter: "jitter_of [Fin 1, Fin 3] = Fin 50"
  by (simp add: jitter_of_def ex_nan_var ex_nan_mean)

lemma ex_nan_split: "split ''10.0.0.1|10.0.0.2|443'' ''|'' = [''10.0.0.1'', ''10.0.0.2'', ''443'']"
  by code_simp

lemma ex_nan_port: "parseInt ''443'' 10 = Some 443"
  by code_simp

lemma ex_nan_out:
  "detectBeaconing example_platform beacon_nan_example (Some NaN) (Some NaN)
     = [beacon_result example_platform beacon_nan_example ''10.0.0.1'' ''10.0.0.2'' ''443''
          [Fin 10, Fin 11, Fin 14] [Fin 1, Fin 3]]"
proof -
  have "beacon_candidate example_platform beacon_nan_example
          (or_default (Fin 10) (Some NaN)) (or_default (Fin 30) (Some NaN)) ''10.0.0.1|10.0.0.2|443'' [Fin 10, Fin 11, Fin 14]
        = Some (beacon_result example_platform beacon_nan_example ''10.0.0.1'' ''10.0.0.2'' ''443''
          [Fin 10, Fin 11, Fin 14] [Fin 1, Fin 3])"
    by (rule candidate_eval [OF _ ex_nan_sort ex_nan_ivs _ _ _ ex_nan_split])
       (simp_all add: or_default_def ex_nan_mean ex_nan_jitter)
  then show ?thesis by (rule single_group [OF ex_nan_pairs])
qed

text \<open>
  C6, as amended. Let the records be well formed (no bar in an address, destination ports
  whole numbers from 0 to 65535, timestamps finite or absent) and let neither parameter be
  \<^verbatim>\<open>NaN\<close>. Then every candidate of \<open>detectBeaconing\<close> has a destination port \<open>p\<close> such that
  the timestamped records of the triple of its source, destination and \<open>p\<close> number
  \<open>connectionCount\<close>, which is at least \<open>minConnections\<close>; the mean of the consecutive
  intervals of their sorted timestamps is not 0; and the jitter of these intervals is at
  most \<open>maxJitterPercent\<close>. A triple with fewer than \<open>minConnections\<close> timestamped records
  has no candidate.
\<close>

theorem detectBeaconing_candidates:
  assumes "beacon_wf P records"
    and "or_default (Fin 10) minConnections \<noteq> NaN"
    and "or_default (Fin 30) maxJitterPercent \<noteq> NaN"
  shows "(\<forall>c\<in>set (detectBeaconing P records minConnections maxJitterPercent).
            \<exists>p. dstPort c = Some p
              \<and> connectionCount c = length (triple_timestamps P records (srcIp c) (dstIp c) p)
              \<and> num_le (or_default (Fin 10) minConnections)
                   (Fin (real (length (triple_timestamps P records (srcIp c) (dstIp c) p))))
              \<and> mean_of (intervals_of (js_sort num_sub
                   (triple_timestamps P records (srcIp c) (dstIp c) p))) \<noteq> Fin 0
              \<and> num_le (jitter_of (intervals_of (js_sort num_sub
                   (triple_timestamps P records (srcIp c) (dstIp c) p))))
                   (or_default (Fin 30) maxJitterPercent))
         \<and> (\<forall>s d p.
              num_lt (Fin (real (length (triple_timestamps P records s d p))))
                (or_default (Fin 10) minConnections)
              \<longrightarrow> \<not> (\<exists>c\<in>set (detectBeaconing P records minConnections maxJitterPercent).
                      srcIp c = s \<and> dstIp c = d \<and> dstPort c = Some p))"
proof (intro conjI ballI allI impI)
  fix c assume "c \<in> set (detectBeaconing P records minConnections maxJitterPercent)"
  with assms show "\<exists>p. dstPort c = Some p
              \<and> connectionCount c = length (triple_timestamps P records (srcIp c) (dstIp c) p)
              \<and> num_le (or_default (Fin 10) minConnections)
                   (Fin (real (length (triple_timestamps P records (srcIp c) (dstIp c) p))))
              \<and> mean_of (intervals_of (js_sort num_sub
                   (triple_timestamps P records (srcIp c) (dstIp c) p))) \<noteq> Fin 0
              \<and> num_le (jitter_of (intervals_of (js_sort num_sub
                   (triple_timestamps P records (srcIp c) (dstIp c) p))))
                   (or_default (Fin 30) maxJitterPercent)"
    by (rule candidate_facts)
next
  fix s d p
  assume few: "num_lt (Fin (real (length (triple_timestamps P records s d p))))
                (or_default (Fin 10) minConnections)"
  show "\<not> (\<exists>c\<in>set (detectBeaconing P records minConnections maxJitterPercent).
                      srcIp c = s \<and> dstIp c = d \<and> dstPort c = Some p)"
  proof
    assume "\<exists>c\<in>set (detectBeaconing P records minConnections maxJitterPercent).
                      srcIp c = s \<and> dstIp c = d \<and> dstPort c = Some p"
    then obtain c where c: "c \<in> set (detectBeaconing P records minConnections maxJitterPercent)"
      and f: "srcIp c = s" "dstIp c = d" "dstPort c = Some p" by blast
    from candidate_facts [OF assms c] f
    have "num_le (or_default (Fin 10) minConnections)
                   (Fin (real (length (triple_timestamps P records s d p))))"
      by auto
    then have "\<not> num_lt (Fin (real (length (triple_timestamps P records s d p))))
                (or_default (Fin 10) minConnections)"
      by (rule le_not_lt)
    with few show False by simp
  qed
qed

theorem detectBeaconing_candidates_witness:
  "beacon_wf example_platform beacon_example
   \<and> map (\<lambda>c. (srcIp c, dstIp c, dstPort c, connectionCount c))
        (detectBeaconing example_platform beacon_example (Some (Fin 3)) None)
       = [(''192.168.1.100'', ''45.33.32.156'', Some 443, 3)]
   \<and> num_le (Fin 3) (Fin (real (length
        (triple_timestamps example_platform beacon_example ''192.168.1.100'' ''45.33.32.156'' 443))))
   \<and> num_le (jitter_of (intervals_of (js_sort num_sub
        (triple_timestamps example_platform beacon_example ''192.168.1.100'' ''45.33.32.156'' 443)))) (Fin 30)"
proof -
  let ?c = "beacon_result example_platform beacon_example ''192.168.1.100'' ''45.33.32.156'' ''443''
       [Fin 60, Fin 120, Fin 180] [Fin 60, Fin 60]"
  have wf: "beacon_wf example_platform beacon_example" by code_simp
  have mn: "or_default (Fin 10) (Some (Fin 3)) \<noteq> NaN" by (simp add: or_default_def)
  have jn: "or_default (Fin 30) None \<noteq> NaN" by (simp add: or_default_def)
  have mem: "?c \<in> set (detectBeaconing example_platform beacon_example (Some (Fin 3)) None)"
    by (simp add: ex_regular_out)
  from detectBeaconing_candidates [OF wf mn jn, THEN conjunct1, THEN bspec, OF mem]
  obtain p where p: "dstPort ?c = Some p"
    and le: "num_le (or_default (Fin 10) (Some (Fin 3)))
               (Fin (real (length (triple_timestamps example_platform beacon_example
                  (srcIp ?c) (dstIp ?c) p))))"
    and j: "num_le (jitter_of (intervals_of (js_sort num_sub
               (triple_timestamps example_platform beacon_example (srcIp ?c) (dstIp ?c) p))))
               (or_default (Fin 30) None)"
    by blast
  from p have "p = 443" by (simp add: beacon_result_sel ex_regular_port)
  with le j have "num_le (Fin 3) (Fin (real (length
        (triple_timestamps example_platform beacon_example ''192.168.1.100'' ''45.33.32.156'' 443))))"
    and "num_le (jitter_of (intervals_of (js_sort num_sub
        (triple_timestamps example_platform beacon_example ''192.168.1.100'' ''45.33.32.156'' 443)))) (Fin 30)"
    by (simp_all add: beacon_result_sel or_default_def)
  moreover have "map (\<lambda>c. (srcIp c, dstIp c, dstPort c, connectionCount c))
        (detectBeaconing example_platform beacon_example (Some (Fin 3)) None)
       = [(''192.168.1.100'', ''45.33.32.156'', Some 443, 3)]"
    by (simp add: ex_regular_out sel4 ex_regular_port)
  ultimately show ?thesis using wf by (intro conjI)
qed

lemma ex_inf_triple:
  "triple_timestamps example_platform beacon_inf_example ''10.0.0.1'' ''10.0.0.2'' 443 = [PInf, PInf]"
  by code_simp

lemma ex_nan_triple:
  "triple_timestamps example_platform beacon_nan_example ''10.0.0.1'' ''10.0.0.2'' 443 = [Fin 10, Fin 11, Fin 14]"
  by code_simp

lemma ex_bar_sources:
  "filter (\<lambda>r. beacon_src example_platform r = ''a'') beacon_bar_example = []"
  by code_simp

text \<open>
  C6 as stated fails outside those conditions. A source that contains a bar is cut at the
  bar when the key is split: two records of the source \<open>a|b\<close> give a candidate for the
  source \<open>a\<close>, which has no record. Two records with an infinite timestamp give a candidate
  whose jitter is \<^verbatim>\<open>NaN\<close>, which is not at most 30. Records without a destination port give
  a candidate whose port is \<^verbatim>\<open>NaN\<close>. With \<^verbatim>\<open>NaN\<close> for both parameters no group is
  discarded by them: three records with the jitter 50 give a candidate.
\<close>

theorem detectBeaconing_counterexample:
  "map (\<lambda>c. (srcIp c, dstIp c, dstPort c, connectionCount c))
      (detectBeaconing example_platform beacon_bar_example (Some (Fin 2)) None) = [(''a'', ''b'', None, 2)]
   \<and> filter (\<lambda>r. beacon_src example_platform r = ''a'') beacon_bar_example = []
   \<and> map (\<lambda>c. (srcIp c, dstIp c, dstPort c, connectionCount c))
      (detectBeaconing example_platform beacon_inf_example (Some (Fin 2)) None)
     = [(''10.0.0.1'', ''10.0.0.2'', Some 443, 2)]
   \<and> jitter_of (intervals_of (js_sort num_sub
        (triple_timestamps example_platform beacon_inf_example ''10.0.0.1'' ''10.0.0.2'' 443))) = NaN
   \<and> \<not> num_le NaN (Fin 30)
   \<and> map (\<lambda>c. (srcIp c, dstIp c, dstPort c, connectionCount c))
      (detectBeaconing example_platform beacon_noport_example (Some (Fin 2)) None)
     = [(''10.0.0.1'', ''10.0.0.2'', None, 2)]
   \<and> map (\<lambda>c. (srcIp c, dstIp c, dstPort c, connectionCount c))
      (detectBeaconing example_platform beacon_nan_example (Some NaN) (Some NaN))
     = [(''10.0.0.1'', ''10.0.0.2'', Some 443, 3)]
   \<and> jitter_of (intervals_of (js_sort num_sub
        (triple_timestamps example_platform beacon_nan_example ''10.0.0.1'' ''10.0.0.2'' 443))) = Fin 50
   \<and> \<not> num_le (Fin 50) NaN \<and> \<not> num_le NaN (Fin 3)"
proof -
  have bar: "map (\<lambda>c. (srcIp c, dstIp c, dstPort c, connectionCount c))
      (detectBeaconing example_platform beacon_bar_example (Some (Fin 2)) None) = [(''a'', ''b'', None, 2)]"
    by (simp add: ex_bar_out sel4 ex_bar_port)
  have inf: "map (\<lambda>c. (srcIp c, dstIp c, dstPort c, connectionCount c))
      (detectBeaconing example_platform beacon_inf_example (Some (Fin 2)) None)
     = [(''10.0.0.1'', ''10.0.0.2'', Some 443, 2)]"
    by (simp add: ex_inf_out sel4 ex_inf_port)
  have infj: "jitter_of (intervals_of (js_sort num_sub
        (triple_timestamps example_platform beacon_inf_example ''10.0.0.1'' ''10.0.0.2'' 443))) = NaN"
    by (simp only: ex_inf_triple ex_inf_sort ex_inf_ivs ex_inf_jitter)
  have nop: "map (\<lambda>c. (srcIp c, dstIp c, dstPort c, connectionCount c))
      (detectBeaconing example_platform beacon_noport_example (Some (Fin 2)) None)
     = [(''10.0.0.1'', ''10.0.0.2'', None, 2)]"
    by (simp add: ex_noport_out sel4 ex_noport_port)
  have nan: "map (\<lambda>c. (srcIp c, dstIp c, dstPort c, connectionCount c))
      (detectBeaconing example_platform beacon_nan_example (Some NaN) (Some NaN))
     = [(''10.0.0.1'', ''10.0.0.2'', Some 443, 3)]"
    by (simp add: ex_nan_out sel4 ex_nan_port)
  have nanj: "jitter_of (intervals_of (js_sort num_sub
        (triple_timestamps example_platform beacon_nan_example ''10.0.0.1'' ''10.0.0.2'' 443))) = Fin 50"
    by (simp only: ex_nan_triple ex_nan_sort ex_nan_ivs ex_nan_jitter)
  show ?thesis using bar ex_bar_sources inf infj nop nan nanj by simp
qed


end
